theory Spec2Isabelle
  imports Main
begin

section \<open>The Python runtime the two exporter scripts run in\<close>

text \<open>
  Both scripts are straight-line sequences of calls into a host application (Blender's
  \<^verbatim>\<open>bpy\<close>, Maya's \<^verbatim>\<open>maya.cmds\<close>), wrapped in \<^verbatim>\<open>try\<close>/\<^verbatim>\<open>except Exception\<close>
  (and, for Maya, \<^verbatim>\<open>finally\<close>). The host is a parameter of the model: a record of
  functions over an arbitrary host state \<open>'h\<close>, each of which either returns or raises.

  An exception carries whether its class derives from \<^verbatim>\<open>Exception\<close> (what
  \<^verbatim>\<open>except Exception\<close> tests), the class name, and \<^verbatim>\<open>str(e)\<close>.
\<close>

datatype pyexc = PyExc (is_Exception: bool) (exc_class: string) (exc_str: string)

definition IndexError :: pyexc where
  "IndexError = PyExc True ''IndexError'' ''list index out of range''"

text \<open>
  The exception of \<^verbatim>\<open>list.index\<close> for a missing string, with the message of CPython 3
  (\<^verbatim>\<open>repr\<close> of the item, then \<^verbatim>\<open>is not in list\<close>); the scripts never print it.
\<close>

definition ValueError :: "string \<Rightarrow> pyexc" where
  "ValueError x = PyExc True ''ValueError'' (CHR 0x27 # x @ CHR 0x27 # '' is not in list'')"

text \<open>
  A statement returns a value, raises an exception, or raises \<^verbatim>\<open>SystemExit\<close>
  through \<^verbatim>\<open>sys.exit(n)\<close>. \<^verbatim>\<open>SystemExit\<close> derives from \<^verbatim>\<open>BaseException\<close> only, so no
  \<^verbatim>\<open>except Exception\<close> clause catches it: it is a result of its own.
\<close>

datatype 'a res = Ok 'a | Raise pyexc | Exit int

text \<open>
  JSON values as \<^verbatim>\<open>json.dumps\<close> receives them; a dict keeps its insertion order.
  A line of standard output is a literal prefix followed by the serialisation of a value
  (\<^verbatim>\<open>json.dumps\<close> with default arguments never emits a newline, so one
  \<^verbatim>\<open>print\<close> is one line).
\<close>

datatype json = JBool bool | JInt int | JStr string | JObj "(string \<times> json) list"

datatype line = Line string json

text \<open>
  The trace of a run has one entry per host call, in order: the call, and the exception
  when it raised. A call is named with the arguments that vary; the keyword arguments the
  scripts fix (\<^verbatim>\<open>use_empty=True\<close>, \<^verbatim>\<open>link=False\<close>, \<^verbatim>\<open>action='DESELECT'\<close>,
  \<^verbatim>\<open>exportSelected=True\<close>, the export options) belong to the name.
\<close>

datatype 'c event = Returned 'c | Threw 'c pyexc

fun call_of :: "'c event \<Rightarrow> 'c" where
  "call_of (Returned c) = c"
| "call_of (Threw c e) = c"

fun is_thrown :: "'c event \<Rightarrow> bool" where
  "is_thrown (Returned c) = False"
| "is_thrown (Threw c e) = True"

record ('h, 'c) world =
  hstate :: 'h
  trace :: "'c event list"
  stdout :: "line list"

type_synonym ('h, 'c, 'a) prog = "('h, 'c) world \<Rightarrow> 'a res \<times> ('h, 'c) world"

definition return :: "'a \<Rightarrow> ('h, 'c, 'a) prog" where
  "return a w = (Ok a, w)"

definition seq :: "('h, 'c, 'a) prog \<Rightarrow> ('a \<Rightarrow> ('h, 'c, 'b) prog) \<Rightarrow> ('h, 'c, 'b) prog" where
  "seq m f w =
     (case m w of
        (Ok a, w') \<Rightarrow> f a w'
      | (Raise e, w') \<Rightarrow> (Raise e, w')
      | (Exit n, w') \<Rightarrow> (Exit n, w'))"

text \<open>A host call that may change the host state, also when it raises.\<close>

definition call :: "'c \<Rightarrow> ('h \<Rightarrow> (pyexc + 'a) \<times> 'h) \<Rightarrow> ('h, 'c, 'a) prog" where
  "call c f w =
     (case f (hstate w) of
        (Inr a, h') \<Rightarrow> (Ok a, w\<lparr>hstate := h', trace := trace w @ [Returned c]\<rparr>)
      | (Inl e, h') \<Rightarrow> (Raise e, w\<lparr>hstate := h', trace := trace w @ [Threw c e]\<rparr>))"

text \<open>A host query: it reads the host state and may raise.\<close>

definition query :: "'c \<Rightarrow> ('h \<Rightarrow> pyexc + 'a) \<Rightarrow> ('h, 'c, 'a) prog" where
  "query c f w =
     (case f (hstate w) of
        Inr a \<Rightarrow> (Ok a, w\<lparr>trace := trace w @ [Returned c]\<rparr>)
      | Inl e \<Rightarrow> (Raise e, w\<lparr>trace := trace w @ [Threw c e]\<rparr>))"

text \<open>An attribute read (\<^verbatim>\<open>scene.objects\<close>): no call, no exception.\<close>

definition reads :: "('h \<Rightarrow> 'a) \<Rightarrow> ('h, 'c, 'a) prog" where
  "reads f w = (Ok (f (hstate w)), w)"

definition print :: "line \<Rightarrow> ('h, 'c, unit) prog" where
  "print l w = (Ok (), w\<lparr>stdout := stdout w @ [l]\<rparr>)"

definition sys_exit :: "int \<Rightarrow> ('h, 'c, 'a) prog" where
  "sys_exit n w = (Exit n, w)"

text \<open>\<^verbatim>\<open>try: body  except Exception as e: handler(e)\<close>\<close>

definition try_except :: "('h, 'c, 'a) prog \<Rightarrow> (pyexc \<Rightarrow> ('h, 'c, 'a) prog) \<Rightarrow> ('h, 'c, 'a) prog" where
  "try_except body handler w =
     (case body w of
        (Raise e, w') \<Rightarrow> if is_Exception e then handler e w' else (Raise e, w')
      | (Ok a, w') \<Rightarrow> (Ok a, w')
      | (Exit n, w') \<Rightarrow> (Exit n, w'))"

text \<open>
  \<^verbatim>\<open>try: body  finally: fin\<close>: \<open>fin\<close> runs whatever \<open>body\<close> did; when \<open>fin\<close> itself
  raises, its exception replaces the pending result.
\<close>

definition try_finally :: "('h, 'c, 'a) prog \<Rightarrow> ('h, 'c, unit) prog \<Rightarrow> ('h, 'c, 'a) prog" where
  "try_finally body fin w =
     (case body w of
        (r, w') \<Rightarrow>
          (case fin w' of
             (Ok u, w'') \<Rightarrow> (r, w'')
           | (Raise e, w'') \<Rightarrow> (Raise e, w'')
           | (Exit n, w'') \<Rightarrow> (Exit n, w'')))"

text \<open>\<^verbatim>\<open>xs[i]\<close> for \<open>i \<ge> 0\<close>: \<^verbatim>\<open>IndexError\<close> out of range.\<close>

definition list_get :: "'a list \<Rightarrow> nat \<Rightarrow> ('h, 'c, 'a) prog" where
  "list_get xs i w = (if i < length xs then (Ok (xs ! i), w) else (Raise IndexError, w))"

text \<open>\<^verbatim>\<open>xs.index(x)\<close>: the first position of \<open>x\<close>, \<^verbatim>\<open>ValueError\<close> when absent.\<close>

fun first_index :: "'a list \<Rightarrow> 'a \<Rightarrow> nat option" where
  "first_index [] x = None"
| "first_index (y # ys) x = (if y = x then Some 0 else map_option Suc (first_index ys x))"

definition list_index :: "string list \<Rightarrow> string \<Rightarrow> ('h, 'c, nat) prog" where
  "list_index xs x w =
     (case first_index xs x of Some i \<Rightarrow> (Ok i, w) | None \<Rightarrow> (Raise (ValueError x), w))"

text \<open>
  How the process ends: the script ran to its end (\<open>Finished\<close>, exit code 0), the
  \<^verbatim>\<open>SystemExit\<close> of one of the script's own \<^verbatim>\<open>sys.exit(n)\<close> calls reached the top level
  (\<open>SysExit n\<close>, exit code \<open>n\<close>), or an exception raised by a host call or by the
  script's indexing did (\<open>Uncaught e\<close>). What the interpreter does with an uncaught
  exception depends on its class (a traceback and status 1 for an \<^verbatim>\<open>Exception\<close>, the
  carried code for a \<^verbatim>\<open>SystemExit\<close> raised by the host, a signal for a
  \<^verbatim>\<open>KeyboardInterrupt\<close>) and is left to the reader of the outcome: no exit code is
  assigned to \<open>Uncaught\<close>.
\<close>

datatype outcome = Finished | SysExit int | Uncaught pyexc

fun to_outcome :: "'a res \<Rightarrow> outcome" where
  "to_outcome (Ok a) = Finished"
| "to_outcome (Raise e) = Uncaught e"
| "to_outcome (Exit n) = SysExit n"

definition run_process :: "('h, 'c, unit) prog \<Rightarrow> 'h \<Rightarrow> outcome \<times> ('h, 'c) world" where
  "run_process p h0 =
     (case p \<lparr>hstate = h0, trace = [], stdout = []\<rparr> of (r, w) \<Rightarrow> (to_outcome r, w))"

subsection \<open>The status lines\<close>

definition error_line :: "string \<Rightarrow> line" where
  "error_line msg = Line [] (JObj [(''error'', JStr msg)])"

definition success_line :: "int \<Rightarrow> string \<Rightarrow> int \<Rightarrow> line" where
  "success_line mesh_count output_path file_size =
     Line ''EXPORT_RESULT:''
       (JObj [(''success'', JBool True), (''meshCount'', JInt mesh_count),
              (''outputPath'', JStr output_path), (''fileSize'', JInt file_size)])"

definition no_mesh_msg :: string where
  "no_mesh_msg = ''No mesh objects found in file''"

definition usage_msg :: string where
  "usage_msg = ''Usage: blender --python script.py -- input.blend output.glb''"

text \<open>\<^verbatim>\<open>except Exception as e: print(json.dumps({"error": str(e)})); sys.exit(1)\<close>\<close>

definition report_error :: "pyexc \<Rightarrow> ('h, 'c, 'a) prog" where
  "report_error e = seq (print (error_line (exc_str e))) (\<lambda>u. sys_exit 1)"

fun is_success_line :: "line \<Rightarrow> bool" where
  "is_success_line (Line p (JObj [(k1, JBool b), (k2, JInt n), (k3, JStr s), (k4, JInt z)])) =
     (p = ''EXPORT_RESULT:'' \<and> k1 = ''success'' \<and> b \<and> k2 = ''meshCount'' \<and>
      k3 = ''outputPath'' \<and> k4 = ''fileSize'')"
| "is_success_line l = False"

fun is_error_line :: "line \<Rightarrow> bool" where
  "is_error_line (Line p (JObj [(k, JStr m)])) = (p = [] \<and> k = ''error'')"
| "is_error_line l = False"

section \<open>blender\_export.py\<close>

text \<open>
  The host operations the script uses. \<open>'o\<close> is the type of scene objects;
  \<open>libraries_load\<close> is the whole \<^verbatim>\<open>with bpy.data.libraries.load(...)\<close> block and returns
  \<^verbatim>\<open>data_to.objects\<close>, whose entries may be \<^verbatim>\<open>None\<close>. \<open>obj_type\<close> is the read-only
  attribute \<^verbatim>\<open>obj.type\<close>, and \<open>scene_objects\<close> the collection \<^verbatim>\<open>scene.objects\<close> as the loop
  finds it when it starts (selecting an object does not change the collection).
\<close>

record ('h, 'o) bpy_host =
  wm_read_factory_settings :: "'h \<Rightarrow> (pyexc + unit) \<times> 'h"
  libraries_load :: "string \<Rightarrow> 'h \<Rightarrow> (pyexc + 'o option list) \<times> 'h"
  objects_link :: "'o \<Rightarrow> 'h \<Rightarrow> (pyexc + unit) \<times> 'h"
  object_select_all :: "'h \<Rightarrow> (pyexc + unit) \<times> 'h"
  scene_objects :: "'h \<Rightarrow> 'o list"
  obj_type :: "'o \<Rightarrow> string"
  select_set :: "'o \<Rightarrow> 'h \<Rightarrow> (pyexc + unit) \<times> 'h"
  wm_open_mainfile :: "string \<Rightarrow> 'h \<Rightarrow> (pyexc + unit) \<times> 'h"
  object_transform_apply :: "'h \<Rightarrow> (pyexc + unit) \<times> 'h"
  export_scene_gltf :: "string \<Rightarrow> 'h \<Rightarrow> (pyexc + unit) \<times> 'h"
  bpy_getsize :: "string \<Rightarrow> 'h \<Rightarrow> pyexc + int"

datatype 'o bpy_call =
    ReadFactorySettings
  | LibrariesLoad string
  | ObjectsLink 'o
  | SelectAllDeselect
  | SelectSet 'o
  | OpenMainfile string
  | TransformApply
  | ExportGltf string
  | GetSize string

text \<open>Lines 20--22: link every loaded object that is not \<^verbatim>\<open>None\<close>.\<close>

fun link_objects :: "('h, 'o) bpy_host \<Rightarrow> 'o option list \<Rightarrow> ('h, 'o bpy_call, unit) prog" where
  "link_objects B [] = return ()"
| "link_objects B (obj # rest) =
     seq (case obj of
            Some ob \<Rightarrow> call (ObjectsLink ob) (objects_link B ob)
          | None \<Rightarrow> return ())
       (\<lambda>u. link_objects B rest)"

text \<open>
  The host state after the loop of lines 20--22 when every link call returns, \<open>None\<close>
  when one of them raises: the host's side of \<open>link_objects\<close>, to state facts about the
  host without running the script.
\<close>

fun links_return :: "('h, 'o) bpy_host \<Rightarrow> 'o option list \<Rightarrow> 'h \<Rightarrow> 'h option" where
  "links_return B [] h = Some h"
| "links_return B (None # rest) h = links_return B rest h"
| "links_return B (Some ob # rest) h =
     (case objects_link B ob h of
        (Inr u, h') \<Rightarrow> links_return B rest h'
      | (Inl e, h') \<Rightarrow> None)"

text \<open>Lines 27--30 and 35--38: select every mesh-typed object, counting them.\<close>

fun select_meshes ::
  "('h, 'o) bpy_host \<Rightarrow> 'o list \<Rightarrow> int \<Rightarrow> ('h, 'o bpy_call, int) prog" where
  "select_meshes B [] mesh_count = return mesh_count"
| "select_meshes B (obj # rest) mesh_count =
     (if obj_type B obj = ''MESH''
      then seq (call (SelectSet obj) (select_set B obj))
             (\<lambda>u. select_meshes B rest (mesh_count + 1))
      else select_meshes B rest mesh_count)"

text \<open>The number of mesh-typed objects of a scene.\<close>

definition mesh_objects :: "('h, 'o) bpy_host \<Rightarrow> 'h \<Rightarrow> 'o list" where
  "mesh_objects B h = filter (\<lambda>ob. obj_type B ob = ''MESH'') (scene_objects B h)"

text \<open>Lines 13--30: the library-style load and the first count.\<close>

definition load_and_count ::
  "('h, 'o) bpy_host \<Rightarrow> string \<Rightarrow> ('h, 'o bpy_call, int) prog" where
  "load_and_count B input_path =
     seq (call (LibrariesLoad input_path) (libraries_load B input_path)) (\<lambda>objects.
     seq (link_objects B objects) (\<lambda>u.
     seq (call SelectAllDeselect (object_select_all B)) (\<lambda>u.
     seq (reads (scene_objects B)) (\<lambda>objs.
     select_meshes B objs 0))))"

text \<open>Lines 32--38: the fallback, taken when nothing was counted.\<close>

definition fallback_count ::
  "('h, 'o) bpy_host \<Rightarrow> string \<Rightarrow> int \<Rightarrow> ('h, 'o bpy_call, int) prog" where
  "fallback_count B input_path mesh_count =
     (if mesh_count = 0
      then seq (call (OpenMainfile input_path) (wm_open_mainfile B input_path)) (\<lambda>u.
           seq (reads (scene_objects B)) (\<lambda>objs.
           select_meshes B objs mesh_count))
      else return mesh_count)"

text \<open>Lines 40--67: validation, transform apply, export, report.\<close>

definition validate_and_export ::
  "('h, 'o) bpy_host \<Rightarrow> string \<Rightarrow> int \<Rightarrow> ('h, 'o bpy_call, unit) prog" where
  "validate_and_export B output_path mesh_count =
     seq (if mesh_count = 0
          then seq (print (error_line no_mesh_msg)) (\<lambda>u. sys_exit 1)
          else return ()) (\<lambda>u.
     seq (call TransformApply (object_transform_apply B)) (\<lambda>u.
     seq (call (ExportGltf output_path) (export_scene_gltf B output_path)) (\<lambda>u.
     seq (query (GetSize output_path) (bpy_getsize B output_path)) (\<lambda>file_size.
     print (success_line mesh_count output_path file_size)))))"

definition glb_try_body ::
  "('h, 'o) bpy_host \<Rightarrow> string \<Rightarrow> string \<Rightarrow> ('h, 'o bpy_call, unit) prog" where
  "glb_try_body B input_path output_path =
     seq (load_and_count B input_path) (\<lambda>mesh_count.
     seq (fallback_count B input_path mesh_count) (\<lambda>mesh_count.
     validate_and_export B output_path mesh_count))"

definition export_to_glb ::
  "('h, 'o) bpy_host \<Rightarrow> string \<Rightarrow> string \<Rightarrow> ('h, 'o bpy_call, unit) prog" where
  "export_to_glb B input_path output_path =
     seq (call ReadFactorySettings (wm_read_factory_settings B)) (\<lambda>u.
     try_except (glb_try_body B input_path output_path) report_error)"

text \<open>Lines 73--83: the script's entry point, on \<^verbatim>\<open>sys.argv\<close>.\<close>

definition blender_main ::
  "('h, 'o) bpy_host \<Rightarrow> string list \<Rightarrow> ('h, 'o bpy_call, unit) prog" where
  "blender_main B argv =
     seq (if length argv < 4
          then seq (print (error_line usage_msg)) (\<lambda>u. sys_exit 1)
          else return ()) (\<lambda>u.
     seq (list_index argv ''--'') (\<lambda>i.
     seq (list_get (drop (i + 1) argv) 0) (\<lambda>input_file.
     seq (list_get (drop (i + 1) argv) 1) (\<lambda>output_file.
     export_to_glb B input_file output_file))))"

definition run_blender ::
  "('h, 'o) bpy_host \<Rightarrow> string list \<Rightarrow> 'h \<Rightarrow> outcome \<times> ('h, 'o bpy_call) world" where
  "run_blender B argv h0 = run_process (blender_main B argv) h0"

section \<open>maya\_export.py\<close>

text \<open>
  Scene nodes are names. \<^verbatim>\<open>cmds.ls\<close> and \<^verbatim>\<open>cmds.listRelatives\<close> return a list or
  \<^verbatim>\<open>None\<close>; the script tests both by truthiness. \<^verbatim>\<open>os.path.exists\<close> never raises and is
  read from the host state without a trace entry.
\<close>

record 'h maya_host =
  standalone_initialize :: "'h \<Rightarrow> (pyexc + unit) \<times> 'h"
  cmds_file_open :: "string \<Rightarrow> 'h \<Rightarrow> (pyexc + unit) \<times> 'h"
  cmds_ls_mesh :: "'h \<Rightarrow> pyexc + string list option"
  cmds_listRelatives :: "string \<Rightarrow> 'h \<Rightarrow> pyexc + string list option"
  cmds_select :: "string list \<Rightarrow> 'h \<Rightarrow> (pyexc + unit) \<times> 'h"
  cmds_file_export :: "string \<Rightarrow> 'h \<Rightarrow> (pyexc + unit) \<times> 'h"
  maya_path_exists :: "string \<Rightarrow> 'h \<Rightarrow> bool"
  maya_getsize :: "string \<Rightarrow> 'h \<Rightarrow> pyexc + int"
  standalone_uninitialize :: "'h \<Rightarrow> (pyexc + unit) \<times> 'h"

datatype maya_call =
    Initialize
  | FileOpen string
  | LsMesh
  | ListRelatives string
  | Select "string list"
  | FileExport string
  | PathGetsize string
  | Uninitialize

fun truthy :: "'a list option \<Rightarrow> bool" where
  "truthy None = False"
| "truthy (Some []) = False"
| "truthy (Some (x # xs)) = True"

fun items :: "'a list option \<Rightarrow> 'a list" where
  "items None = []"
| "items (Some xs) = xs"

text \<open>Lines 24--28: the parents of every mesh, accumulated in order.\<close>

fun collect_transforms ::
  "'h maya_host \<Rightarrow> string list \<Rightarrow> string list \<Rightarrow> ('h, maya_call, string list) prog" where
  "collect_transforms M [] transforms = return transforms"
| "collect_transforms M (mesh # rest) transforms =
     seq (query (ListRelatives mesh) (cmds_listRelatives M mesh)) (\<lambda>parent.
     collect_transforms M rest (if truthy parent then transforms @ items parent else transforms))"

text \<open>Line 46: \<^verbatim>\<open>os.path.getsize(p) if os.path.exists(p) else 0\<close>.\<close>

definition output_size :: "'h maya_host \<Rightarrow> string \<Rightarrow> ('h, maya_call, int) prog" where
  "output_size M output_path =
     seq (reads (maya_path_exists M output_path)) (\<lambda>exists.
     if exists then query (PathGetsize output_path) (maya_getsize M output_path)
     else return 0)"

definition obj_try_body ::
  "'h maya_host \<Rightarrow> string \<Rightarrow> string \<Rightarrow> ('h, maya_call, unit) prog" where
  "obj_try_body M input_path output_path =
     seq (call (FileOpen input_path) (cmds_file_open M input_path)) (\<lambda>u.
     seq (query LsMesh (cmds_ls_mesh M)) (\<lambda>meshes.
     seq (if \<not> truthy meshes
          then seq (print (error_line no_mesh_msg)) (\<lambda>u. sys_exit 1)
          else return ()) (\<lambda>u.
     seq (collect_transforms M (items meshes) []) (\<lambda>transforms.
     seq (if transforms \<noteq> []
          then call (Select transforms) (cmds_select M transforms)
          else return ()) (\<lambda>u.
     seq (call (FileExport output_path) (cmds_file_export M output_path)) (\<lambda>u.
     seq (output_size M output_path) (\<lambda>file_size.
     print (success_line (int (length (items meshes))) output_path file_size))))))))"

definition export_to_obj ::
  "'h maya_host \<Rightarrow> string \<Rightarrow> string \<Rightarrow> ('h, maya_call, unit) prog" where
  "export_to_obj M input_path output_path =
     try_finally
       (try_except (obj_try_body M input_path output_path) report_error)
       (call Uninitialize (standalone_uninitialize M))"

text \<open>Line 3 (at import) and lines 56--59.\<close>

definition maya_main :: "'h maya_host \<Rightarrow> string list \<Rightarrow> ('h, maya_call, unit) prog" where
  "maya_main M argv =
     seq (call Initialize (standalone_initialize M)) (\<lambda>u.
     seq (list_get argv 1) (\<lambda>input_file.
     seq (list_get argv 2) (\<lambda>output_file.
     export_to_obj M input_file output_file)))"

definition run_maya ::
  "'h maya_host \<Rightarrow> string list \<Rightarrow> 'h \<Rightarrow> outcome \<times> ('h, maya_call) world" where
  "run_maya M argv h0 = run_process (maya_main M argv) h0"

section \<open>Proof rules for sequences of host calls\<close>

text \<open>
  \<open>traced P m\<close>: whatever \<open>m\<close> does, it only appends host calls satisfying \<open>P\<close> to the
  trace; when it raises, exactly one of the appended calls threw, and it threw that
  exception; when it returns or exits, none did.
\<close>

definition traced :: "('c \<Rightarrow> bool) \<Rightarrow> ('h, 'c, 'a) prog \<Rightarrow> bool" where
  "traced P m =
     (\<forall>w r w'. m w = (r, w') \<longrightarrow>
        (\<exists>evs. trace w' = trace w @ evs \<and> (\<forall>ev\<in>set evs. P (call_of ev)) \<and>
           (case r of
              Raise e \<Rightarrow> (\<exists>c. filter is_thrown evs = [Threw c e])
            | Ok a \<Rightarrow> filter is_thrown evs = []
            | Exit n \<Rightarrow> filter is_thrown evs = [])))"

text \<open>
  \<open>gate m\<close>: \<open>m\<close> prints nothing unless it exits, and then it exits with 1 after the
  one line saying that no mesh was found. \<open>reports p m\<close>: moreover a normal return has
  printed one success line for the output path \<open>p\<close>.
\<close>

definition gate :: "('h, 'c, 'a) prog \<Rightarrow> bool" where
  "gate m =
     (\<forall>w r w'. m w = (r, w') \<longrightarrow>
        (case r of
           Exit n \<Rightarrow> n = 1 \<and> stdout w' = stdout w @ [error_line no_mesh_msg]
         | Ok a \<Rightarrow> stdout w' = stdout w
         | Raise e \<Rightarrow> stdout w' = stdout w))"

definition reports :: "string \<Rightarrow> ('h, 'c, 'a) prog \<Rightarrow> bool" where
  "reports p m =
     (\<forall>w r w'. m w = (r, w') \<longrightarrow>
        (case r of
           Exit n \<Rightarrow> n = 1 \<and> stdout w' = stdout w @ [error_line no_mesh_msg]
         | Ok a \<Rightarrow> (\<exists>n z. stdout w' = stdout w @ [success_line n p z])
         | Raise e \<Rightarrow> stdout w' = stdout w))"

text \<open>
  The host calls inside the \<^verbatim>\<open>try\<close> block of \<^verbatim>\<open>export_to_glb\<close>: all but the scene reset of
  line 9.
\<close>

definition in_try_block :: "'o bpy_call \<Rightarrow> bool" where
  "in_try_block c = (c \<noteq> ReadFactorySettings)"

text \<open>The host calls of the conversion sequence of the OBJ exporter.\<close>

definition conversion_call :: "maya_call \<Rightarrow> bool" where
  "conversion_call c = (c \<noteq> Initialize \<and> c \<noteq> Uninitialize)"

text \<open>
  What \<^verbatim>\<open>try: ... except Exception as e: print(...); sys.exit(1)\<close> turns the result of
  its body into, and what it prints on the way.
\<close>

fun handled :: "'a res \<Rightarrow> 'a res" where
  "handled (Raise e) = (if is_Exception e then Exit 1 else Raise e)"
| "handled (Ok a) = Ok a"
| "handled (Exit n) = Exit n"

fun handler_output :: "'a res \<Rightarrow> line list" where
  "handler_output (Raise e) = (if is_Exception e then [error_line (exc_str e)] else [])"
| "handler_output (Ok a) = []"
| "handler_output (Exit n) = []"

text \<open>The trace entry of the export call, from what the host answered.\<close>

fun export_event :: "string \<Rightarrow> (pyexc + unit) \<Rightarrow> maya_call event" where
  "export_event p (Inr u) = Returned (FileExport p)"
| "export_event p (Inl e) = Threw (FileExport p) e"

text \<open>
  The standard-output protocol, by how the process ended: a run that completes has printed
  exactly one success line, a run that exits has exited with 1 after exactly one error
  line, and a run that died of an uncaught exception has printed at most one status line.
\<close>

fun exactly_one :: "(line \<Rightarrow> bool) \<Rightarrow> line list \<Rightarrow> bool" where
  "exactly_one P [l] = P l"
| "exactly_one P ls = False"

definition follows_protocol :: "outcome \<times> ('h, 'c) world \<Rightarrow> bool" where
  "follows_protocol R =
     (case fst R of
        Finished \<Rightarrow> exactly_one is_success_line (stdout (snd R))
      | SysExit k \<Rightarrow> k = 1 \<and> exactly_one is_error_line (stdout (snd R))
      | Uncaught e \<Rightarrow>
          length (stdout (snd R)) \<le> 1 \<and>
          list_all (\<lambda>l. is_success_line l \<or> is_error_line l) (stdout (snd R)))"

section \<open>Example hosts\<close>

text \<open>
  A Maya session whose scene has two mesh shapes, one of them under a transform; the host
  state records whether the output file has been written.
\<close>

definition demo_maya :: "bool maya_host" where
  "demo_maya =
     \<lparr>standalone_initialize = (\<lambda>h. (Inr (), h)),
      cmds_file_open = (\<lambda>p h. (Inr (), h)),
      cmds_ls_mesh = (\<lambda>h. Inr (Some [''cubeShape'', ''ballShape''])),
      cmds_listRelatives = (\<lambda>m h. Inr (if m = ''cubeShape'' then Some [''cube''] else None)),
      cmds_select = (\<lambda>ts h. (Inr (), h)),
      cmds_file_export = (\<lambda>p h. (Inr (), True)),
      maya_path_exists = (\<lambda>p h. h),
      maya_getsize = (\<lambda>p h. Inr 2048),
      standalone_uninitialize = (\<lambda>h. (Inr (), h))\<rparr>"

text \<open>
  A Blender session: the library-style load brings in a lamp only, and the file opened as
  the main document holds two meshes and a camera. The host state records whether the
  main file is open.
\<close>

definition demo_bpy :: "(bool, string) bpy_host" where
  "demo_bpy =
     \<lparr>wm_read_factory_settings = (\<lambda>h. (Inr (), False)),
      libraries_load = (\<lambda>p h. (Inr [Some ''Lamp'', None], h)),
      objects_link = (\<lambda>ob h. (Inr (), h)),
      object_select_all = (\<lambda>h. (Inr (), h)),
      scene_objects = (\<lambda>h. if h then [''Cube'', ''Camera'', ''Ball''] else [''Lamp'']),
      obj_type = (\<lambda>ob. if ob = ''Cube'' \<or> ob = ''Ball'' then ''MESH''
                         else if ob = ''Lamp'' then ''LIGHT'' else ''CAMERA''),
      select_set = (\<lambda>ob h. (Inr (), h)),
      wm_open_mainfile = (\<lambda>p h. (Inr (), True)),
      object_transform_apply = (\<lambda>h. (Inr (), h)),
      export_scene_gltf = (\<lambda>p h. (Inr (), h)),
      bpy_getsize = (\<lambda>p h. Inr 4096)\<rparr>"

section \<open>Sequencing lemmas\<close>

lemma seq_return [simp]: "seq (return a) f w = f a w"
  by (simp add: seq_def return_def)

lemma seq_reads [simp]: "seq (reads g) f w = f (g (hstate w)) w"
  by (simp add: seq_def reads_def)

lemma seq_print [simp]: "seq (print l) f w = f () (w\<lparr>stdout := stdout w @ [l]\<rparr>)"
  by (simp add: seq_def print_def)

lemma seq_sys_exit [simp]: "seq (sys_exit n) f w = (Exit n, w)"
  by (simp add: seq_def sys_exit_def)

lemma seq_call [simp]:
  "seq (call c g) f w =
     (case g (hstate w) of
        (Inr a, h') \<Rightarrow> f a (w\<lparr>hstate := h', trace := trace w @ [Returned c]\<rparr>)
      | (Inl e, h') \<Rightarrow> (Raise e, w\<lparr>hstate := h', trace := trace w @ [Threw c e]\<rparr>))"
  by (simp add: seq_def call_def split: prod.splits sum.splits)

lemma seq_query [simp]:
  "seq (query c g) f w =
     (case g (hstate w) of
        Inr a \<Rightarrow> f a (w\<lparr>trace := trace w @ [Returned c]\<rparr>)
      | Inl e \<Rightarrow> (Raise e, w\<lparr>trace := trace w @ [Threw c e]\<rparr>))"
  by (simp add: seq_def query_def split: sum.splits)

lemma seq_if [simp]:
  "seq (if b then m else n) f w = (if b then seq m f w else seq n f w)"
  by simp

lemma seq_seq [simp]: "seq (seq m f) g w = seq m (\<lambda>a. seq (f a) g) w"
  by (simp add: seq_def split: prod.splits res.splits)

lemma collect_transforms_step:
  "collect_transforms M (m # ms) ts w =
     (case cmds_listRelatives M m (hstate w) of
        Inr p \<Rightarrow> collect_transforms M ms (if truthy p then ts @ items p else ts)
                   (w\<lparr>trace := trace w @ [Returned (ListRelatives m)]\<rparr>)
      | Inl e \<Rightarrow> (Raise e, w\<lparr>trace := trace w @ [Threw (ListRelatives m) e]\<rparr>))"
  by simp

lemma collect_transforms_frame:
  "collect_transforms M ms ts w = (r, w') \<Longrightarrow>
     hstate w' = hstate w \<and> stdout w' = stdout w \<and>
     (case r of
        Ok ts' \<Rightarrow> trace w' = trace w @ map (\<lambda>m. Returned (ListRelatives m)) ms
      | Raise e \<Rightarrow> (\<exists>k<length ms. trace w' =
            trace w @ map (\<lambda>m. Returned (ListRelatives m)) (take k ms) @ [Threw (ListRelatives (ms ! k)) e])
      | Exit n \<Rightarrow> False)"
proof (induction ms arbitrary: ts w)
  case Nil
  then show ?case by (auto simp: return_def)
next
  case (Cons m ms)
  show ?case
  proof (cases "cmds_listRelatives M m (hstate w)")
    case (Inl e)
    with Cons.prems have "r = Raise e" "w' = w\<lparr>trace := trace w @ [Threw (ListRelatives m) e]\<rparr>"
      by (simp_all add: collect_transforms_step del: collect_transforms.simps)
    then show ?thesis by (auto intro: exI[of _ 0])
  next
    case (Inr p)
    let ?w1 = "w\<lparr>trace := trace w @ [Returned (ListRelatives m)]\<rparr>"
    from Inr Cons.prems
    have run: "collect_transforms M ms (if truthy p then ts @ items p else ts) ?w1 = (r, w')"
      by (simp add: collect_transforms_step del: collect_transforms.simps)
    note ih = Cons.IH[OF run]
    show ?thesis
    proof (cases r)
      case (Ok x)
      with ih show ?thesis by simp
    next
      case (Raise e)
      with ih obtain k where k: "k < length ms"
        "trace w' = trace ?w1 @ map (\<lambda>m. Returned (ListRelatives m)) (take k ms) @ [Threw (ListRelatives (ms ! k)) e]"
        by auto
      then have "Suc k < length (m # ms) \<and> trace w' = trace w @ map (\<lambda>m. Returned (ListRelatives m)) (take (Suc k) (m # ms)) @ [Threw (ListRelatives ((m # ms) ! Suc k)) e]"
        by simp
      then have "\<exists>k<length (m # ms). trace w' = trace w @ map (\<lambda>m. Returned (ListRelatives m)) (take k (m # ms)) @ [Threw (ListRelatives ((m # ms) ! k)) e]"
        by blast
      with ih Raise show ?thesis by simp
    next
      case (Exit n)
      with ih show ?thesis by simp
    qed
  qed
qed

lemma tracedD:
  "traced P m \<Longrightarrow> m w = (r, w') \<Longrightarrow>
     \<exists>evs. trace w' = trace w @ evs \<and> (\<forall>ev\<in>set evs. P (call_of ev)) \<and>
           (case r of
              Raise e \<Rightarrow> (\<exists>c. filter is_thrown evs = [Threw c e])
            | Ok a \<Rightarrow> filter is_thrown evs = []
            | Exit n \<Rightarrow> filter is_thrown evs = [])"
  unfolding traced_def by blast

lemma tracedI:
  "(\<And>w r w'. m w = (r, w') \<Longrightarrow>
     \<exists>evs. trace w' = trace w @ evs \<and> (\<forall>ev\<in>set evs. P (call_of ev)) \<and>
           (case r of
              Raise e \<Rightarrow> (\<exists>c. filter is_thrown evs = [Threw c e])
            | Ok a \<Rightarrow> filter is_thrown evs = []
            | Exit n \<Rightarrow> filter is_thrown evs = [])) \<Longrightarrow> traced P m"
  unfolding traced_def by blast

lemma traced_return: "traced P (return a)"
  by (simp add: traced_def return_def)

lemma traced_reads: "traced P (reads g)"
  by (simp add: traced_def reads_def)

lemma traced_print: "traced P (print l)"
  by (simp add: traced_def print_def)

lemma traced_sys_exit: "traced P (sys_exit n)"
  by (simp add: traced_def sys_exit_def)

lemma traced_call: "P c \<Longrightarrow> traced P (call c g)"
proof (rule tracedI)
  fix w r w'
  assume P: "P c" and run: "call c g w = (r, w')"
  obtain x h' where g: "g (hstate w) = (x, h')" by (cases "g (hstate w)")
  show "\<exists>evs. trace w' = trace w @ evs \<and> (\<forall>ev\<in>set evs. P (call_of ev)) \<and>
           (case r of
              Raise e \<Rightarrow> (\<exists>c. filter is_thrown evs = [Threw c e])
            | Ok a \<Rightarrow> filter is_thrown evs = []
            | Exit n \<Rightarrow> filter is_thrown evs = [])"
  proof (cases x)
    case (Inl e)
    with g run have "r = Raise e" "trace w' = trace w @ [Threw c e]"
      by (auto simp: call_def)
    with P show ?thesis by (intro exI[of _ "[Threw c e]"]) simp
  next
    case (Inr a)
    with g run have "r = Ok a" "trace w' = trace w @ [Returned c]"
      by (auto simp: call_def)
    with P show ?thesis by (intro exI[of _ "[Returned c]"]) simp
  qed
qed

lemma traced_query: "P c \<Longrightarrow> traced P (query c g)"
proof (rule tracedI)
  fix w r w'
  assume P: "P c" and run: "query c g w = (r, w')"
  show "\<exists>evs. trace w' = trace w @ evs \<and> (\<forall>ev\<in>set evs. P (call_of ev)) \<and>
           (case r of
              Raise e \<Rightarrow> (\<exists>c. filter is_thrown evs = [Threw c e])
            | Ok a \<Rightarrow> filter is_thrown evs = []
            | Exit n \<Rightarrow> filter is_thrown evs = [])"
  proof (cases "g (hstate w)")
    case (Inl e)
    with run have "r = Raise e" "trace w' = trace w @ [Threw c e]"
      by (auto simp: query_def)
    with P show ?thesis by (intro exI[of _ "[Threw c e]"]) simp
  next
    case (Inr a)
    with run have "r = Ok a" "trace w' = trace w @ [Returned c]"
      by (auto simp: query_def)
    with P show ?thesis by (intro exI[of _ "[Returned c]"]) simp
  qed
qed

lemma traced_if: "traced P m \<Longrightarrow> traced P n \<Longrightarrow> traced P (if b then m else n)"
  by simp

lemma traced_seq:
  assumes m: "traced P m" and f: "\<And>a. traced P (f a)"
  shows "traced P (seq m f)"
proof (rule tracedI)
  fix w r w'
  assume run: "seq m f w = (r, w')"
  obtain r1 w1 where m1: "m w = (r1, w1)" by (cases "m w")
  from tracedD[OF m m1] obtain evs1 where
    t1: "trace w1 = trace w @ evs1" and p1: "\<forall>ev\<in>set evs1. P (call_of ev)" and
    s1: "case r1 of
              Raise e \<Rightarrow> (\<exists>c. filter is_thrown evs1 = [Threw c e])
            | Ok a \<Rightarrow> filter is_thrown evs1 = []
            | Exit n \<Rightarrow> filter is_thrown evs1 = []"
    by blast
  show "\<exists>evs. trace w' = trace w @ evs \<and> (\<forall>ev\<in>set evs. P (call_of ev)) \<and>
           (case r of
              Raise e \<Rightarrow> (\<exists>c. filter is_thrown evs = [Threw c e])
            | Ok a \<Rightarrow> filter is_thrown evs = []
            | Exit n \<Rightarrow> filter is_thrown evs = [])"
  proof (cases r1)
    case (Ok a)
    with run m1 have f1: "f a w1 = (r, w')" by (simp add: seq_def)
    from tracedD[OF f f1] obtain evs2 where
      t2: "trace w' = trace w1 @ evs2" and p2: "\<forall>ev\<in>set evs2. P (call_of ev)" and
      s2: "case r of
              Raise e \<Rightarrow> (\<exists>c. filter is_thrown evs2 = [Threw c e])
            | Ok a \<Rightarrow> filter is_thrown evs2 = []
            | Exit n \<Rightarrow> filter is_thrown evs2 = []"
      by blast
    from s1 Ok have q1: "filter is_thrown evs1 = []" by simp
    have a: "trace w' = trace w @ (evs1 @ evs2)" using t1 t2 by simp
    have b: "\<forall>ev\<in>set (evs1 @ evs2). P (call_of ev)" using p1 p2 by auto
    have c: "filter is_thrown (evs1 @ evs2) = filter is_thrown evs2" using q1 by simp
    from s2 c have d: "case r of
              Raise e \<Rightarrow> (\<exists>c. filter is_thrown (evs1 @ evs2) = [Threw c e])
            | Ok a \<Rightarrow> filter is_thrown (evs1 @ evs2) = []
            | Exit n \<Rightarrow> filter is_thrown (evs1 @ evs2) = []"
      by (simp only:)
    from a b d show ?thesis by blast
  next
    case (Raise e)
    with run m1 have "r = Raise e" "w' = w1" by (simp_all add: seq_def)
    with t1 p1 s1 Raise show ?thesis
      by (intro exI[of _ evs1]) simp
  next
    case (Exit n)
    with run m1 have "r = Exit n" "w' = w1" by (simp_all add: seq_def)
    with t1 p1 s1 Exit show ?thesis
      by (intro exI[of _ evs1]) simp
  qed
qed

lemma traced_mono:
  assumes m: "traced P m" and PQ: "\<And>c. P c \<Longrightarrow> Q c"
  shows "traced Q m"
proof (rule tracedI)
  fix w r w'
  assume run: "m w = (r, w')"
  from tracedD[OF m run] obtain evs where
    t1: "trace w' = trace w @ evs" and p1: "\<forall>ev\<in>set evs. P (call_of ev)" and
    s1: "case r of
              Raise e \<Rightarrow> (\<exists>c. filter is_thrown evs = [Threw c e])
            | Ok a \<Rightarrow> filter is_thrown evs = []
            | Exit n \<Rightarrow> filter is_thrown evs = []"
    by blast
  from p1 PQ have "\<forall>ev\<in>set evs. Q (call_of ev)" by blast
  with t1 s1 show "\<exists>evs. trace w' = trace w @ evs \<and> (\<forall>ev\<in>set evs. Q (call_of ev)) \<and>
           (case r of
              Raise e \<Rightarrow> (\<exists>c. filter is_thrown evs = [Threw c e])
            | Ok a \<Rightarrow> filter is_thrown evs = []
            | Exit n \<Rightarrow> filter is_thrown evs = [])"
    by blast
qed

lemma gate_return: "gate (return a)"
  by (simp add: gate_def return_def)

lemma gate_reads: "gate (reads g)"
  by (simp add: gate_def reads_def)

lemma gate_call: "gate (call c g)"
  by (auto simp: gate_def call_def split: prod.splits sum.splits)

lemma gate_query: "gate (query c g)"
  by (auto simp: gate_def query_def split: sum.splits)

lemma gate_if: "gate m \<Longrightarrow> gate n \<Longrightarrow> gate (if b then m else n)"
  by simp

lemma gate_no_mesh: "gate (seq (print (error_line no_mesh_msg)) (\<lambda>u. sys_exit 1))"
  by (simp add: gate_def seq_def print_def sys_exit_def)

lemma gate_seq:
  assumes m: "gate m" and f: "\<And>a. gate (f a)"
  shows "gate (seq m f)"
  unfolding gate_def
proof (intro allI impI)
  fix w r w'
  assume run: "seq m f w = (r, w')"
  obtain r1 w1 where m1: "m w = (r1, w1)" by (cases "m w")
  from m m1 have s1: "case r1 of
           Exit n \<Rightarrow> n = 1 \<and> stdout w1 = stdout w @ [error_line no_mesh_msg]
         | Ok a \<Rightarrow> stdout w1 = stdout w
         | Raise e \<Rightarrow> stdout w1 = stdout w"
    unfolding gate_def by blast
  show "case r of
           Exit n \<Rightarrow> n = 1 \<and> stdout w' = stdout w @ [error_line no_mesh_msg]
         | Ok a \<Rightarrow> stdout w' = stdout w
         | Raise e \<Rightarrow> stdout w' = stdout w"
  proof (cases r1)
    case (Ok a)
    with run m1 have f1: "f a w1 = (r, w')" by (simp add: seq_def)
    with f[of a] have "case r of
           Exit n \<Rightarrow> n = 1 \<and> stdout w' = stdout w1 @ [error_line no_mesh_msg]
         | Ok a \<Rightarrow> stdout w' = stdout w1
         | Raise e \<Rightarrow> stdout w' = stdout w1"
      unfolding gate_def by blast
    with s1 Ok show ?thesis by (cases r) simp_all
  next
    case (Raise e)
    with run m1 have "r = Raise e" "w' = w1" by (simp_all add: seq_def)
    with s1 Raise show ?thesis by simp
  next
    case (Exit n)
    with run m1 have "r = Exit n" "w' = w1" by (simp_all add: seq_def)
    with s1 Exit show ?thesis by simp
  qed
qed

lemma reports_print: "reports p (print (success_line n p z))"
  by (auto simp: reports_def print_def)

lemma reports_seq:
  assumes m: "gate m" and f: "\<And>a. reports p (f a)"
  shows "reports p (seq m f)"
  unfolding reports_def
proof (intro allI impI)
  fix w r w'
  assume run: "seq m f w = (r, w')"
  obtain r1 w1 where m1: "m w = (r1, w1)" by (cases "m w")
  from m m1 have s1: "case r1 of
           Exit n \<Rightarrow> n = 1 \<and> stdout w1 = stdout w @ [error_line no_mesh_msg]
         | Ok a \<Rightarrow> stdout w1 = stdout w
         | Raise e \<Rightarrow> stdout w1 = stdout w"
    unfolding gate_def by blast
  show "case r of
           Exit n \<Rightarrow> n = 1 \<and> stdout w' = stdout w @ [error_line no_mesh_msg]
         | Ok a \<Rightarrow> (\<exists>n z. stdout w' = stdout w @ [success_line n p z])
         | Raise e \<Rightarrow> stdout w' = stdout w"
  proof (cases r1)
    case (Ok a)
    with run m1 have f1: "f a w1 = (r, w')" by (simp add: seq_def)
    with f[of a] have "case r of
           Exit n \<Rightarrow> n = 1 \<and> stdout w' = stdout w1 @ [error_line no_mesh_msg]
         | Ok a \<Rightarrow> (\<exists>n z. stdout w' = stdout w1 @ [success_line n p z])
         | Raise e \<Rightarrow> stdout w' = stdout w1"
      unfolding reports_def by blast
    with s1 Ok show ?thesis by (cases r) simp_all
  next
    case (Raise e)
    with run m1 have "r = Raise e" "w' = w1" by (simp_all add: seq_def)
    with s1 Raise show ?thesis by simp
  next
    case (Exit n)
    with run m1 have "r = Exit n" "w' = w1" by (simp_all add: seq_def)
    with s1 Exit show ?thesis by simp
  qed
qed

lemma traced_collect_transforms:
  "(\<And>m. P (ListRelatives m)) \<Longrightarrow> traced P (collect_transforms M ms ts)"
  by (induction ms arbitrary: ts) (simp_all add: traced_return traced_seq traced_query)

lemma gate_collect_transforms: "gate (collect_transforms M ms ts)"
  by (induction ms arbitrary: ts) (simp_all add: gate_return gate_seq gate_query)

lemma traced_output_size: "P (PathGetsize p) \<Longrightarrow> traced P (output_size M p)"
  unfolding output_size_def
  by (intro traced_seq traced_reads traced_if traced_query traced_return)

lemma gate_output_size: "gate (output_size M p)"
  unfolding output_size_def
  by (intro gate_seq gate_reads gate_if gate_query gate_return)

lemma traced_obj_try_body: "traced conversion_call (obj_try_body M inp outp)"
  unfolding obj_try_body_def
  by (intro traced_seq traced_call traced_query traced_if traced_print traced_sys_exit
        traced_return traced_collect_transforms traced_output_size)
     (simp_all add: conversion_call_def)

lemma reports_obj_try_body: "reports outp (obj_try_body M inp outp)"
  unfolding obj_try_body_def
  by (intro reports_seq reports_print gate_call gate_query gate_if gate_no_mesh gate_return
        gate_collect_transforms gate_output_size)

section \<open>The OBJ exporter: shape of every run\<close>

lemma seq_list_get [simp]:
  "seq (list_get xs i) f w = (if i < length xs then f (xs ! i) w else (Raise IndexError, w))"
  by (simp add: seq_def list_get_def)

lemma seq_list_index [simp]:
  "seq (list_index xs x) f w =
     (case first_index xs x of Some i \<Rightarrow> f i w | None \<Rightarrow> (Raise (ValueError x), w))"
  by (simp add: seq_def list_index_def split: option.splits)

lemma report_error_run:
  "report_error e w = (Exit 1, w\<lparr>stdout := stdout w @ [error_line (exc_str e)]\<rparr>)"
  by (simp add: report_error_def sys_exit_def)

lemma reportsD:
  "reports p m \<Longrightarrow> m w = (r, w') \<Longrightarrow>
     (case r of
        Exit n \<Rightarrow> n = 1 \<and> stdout w' = stdout w @ [error_line no_mesh_msg]
      | Ok a \<Rightarrow> (\<exists>n z. stdout w' = stdout w @ [success_line n p z])
      | Raise e \<Rightarrow> stdout w' = stdout w)"
  unfolding reports_def by blast

lemma try_except_report:
  assumes "body w = (rb, wb)"
  shows "try_except body report_error w =
           (handled rb, wb\<lparr>stdout := stdout wb @ handler_output rb\<rparr>)"
  using assms by (cases rb) (simp_all add: try_except_def report_error_run)

lemma export_to_obj_unfold:
  assumes body: "obj_try_body M inp outp w = (rb, wb)"
  shows "export_to_obj M inp outp w =
     (case standalone_uninitialize M (hstate wb) of
        (Inr u, h') \<Rightarrow> (handled rb,
            wb\<lparr>hstate := h', trace := trace wb @ [Returned Uninitialize],
                stdout := stdout wb @ handler_output rb\<rparr>)
      | (Inl e, h') \<Rightarrow> (Raise e,
            wb\<lparr>hstate := h', trace := trace wb @ [Threw Uninitialize e],
                stdout := stdout wb @ handler_output rb\<rparr>))"
  by (simp add: export_to_obj_def try_finally_def try_except_report[of "obj_try_body M inp outp" w rb wb, OF body] call_def
      split: prod.splits sum.splits)

lemma run_maya_unfold:
  "run_maya M argv h0 =
     (case standalone_initialize M h0 of
        (Inl e, h) \<Rightarrow> (Uncaught e, \<lparr>hstate = h, trace = [Threw Initialize e], stdout = []\<rparr>)
      | (Inr u, h) \<Rightarrow>
          if length argv < 3
          then (Uncaught IndexError, \<lparr>hstate = h, trace = [Returned Initialize], stdout = []\<rparr>)
          else (case export_to_obj M (argv ! 1) (argv ! 2)
                       \<lparr>hstate = h, trace = [Returned Initialize], stdout = []\<rparr> of
                  (r, w) \<Rightarrow> (to_outcome r, w)))"
  by (auto simp: run_maya_def run_process_def maya_main_def
      split: prod.splits sum.splits)

lemma no_uninitialize:
  "\<forall>ev\<in>set evs. conversion_call (call_of ev) \<Longrightarrow>
     filter (\<lambda>ev. call_of ev = Uninitialize) evs = []"
  by (induction evs) (auto simp: conversion_call_def)

lemma export_to_obj_trace:
  assumes run: "export_to_obj M inp outp w = (r, w')"
  shows "\<exists>evs u. trace w' = trace w @ evs @ [u] \<and> call_of u = Uninitialize \<and>
           (\<forall>ev\<in>set evs. conversion_call (call_of ev))"
proof -
  obtain rb wb where body: "obj_try_body M inp outp w = (rb, wb)"
    by (cases "obj_try_body M inp outp w")
  from tracedD[OF traced_obj_try_body body] obtain evs where
    evs: "trace wb = trace w @ evs" "\<forall>ev\<in>set evs. conversion_call (call_of ev)"
    by blast
  obtain x h' where u: "standalone_uninitialize M (hstate wb) = (x, h')"
    by (cases "standalone_uninitialize M (hstate wb)")
  show ?thesis
  proof (cases x)
    case (Inl e)
    with run u evs have "trace w' = trace w @ evs @ [Threw Uninitialize e]"
      by (auto simp: export_to_obj_unfold[OF body])
    with evs show ?thesis by (intro exI[of _ evs] exI[of _ "Threw Uninitialize e"]) simp
  next
    case (Inr a)
    with run u evs have "trace w' = trace w @ evs @ [Returned Uninitialize]"
      by (auto simp: export_to_obj_unfold[OF body])
    with evs show ?thesis by (intro exI[of _ evs] exI[of _ "Returned Uninitialize"]) simp
  qed
qed

lemma success_not_error [simp]: "\<not> is_success_line (error_line m)"
  by (simp add: error_line_def)

lemma success_is_success [simp]: "is_success_line (success_line n p z)"
  by (simp add: success_line_def)

lemma error_is_error [simp]: "is_error_line (error_line m)"
  by (simp add: error_line_def)

lemma export_to_obj_result:
  assumes run: "export_to_obj M inp outp w = (r, w')"
  shows "\<exists>rb wb u. obj_try_body M inp outp w = (rb, wb) \<and>
           stdout w' = stdout wb @ handler_output rb \<and>
           trace w' = trace wb @ [u] \<and> call_of u = Uninitialize \<and>
           hstate w' = snd (standalone_uninitialize M (hstate wb)) \<and>
           r = (case u of Returned c \<Rightarrow> handled rb | Threw c e \<Rightarrow> Raise e)"
proof -
  obtain rb wb where body: "obj_try_body M inp outp w = (rb, wb)"
    by (cases "obj_try_body M inp outp w")
  obtain x h' where u: "standalone_uninitialize M (hstate wb) = (x, h')"
    by (cases "standalone_uninitialize M (hstate wb)")
  show ?thesis
  proof (cases x)
    case (Inl e)
    with run u body show ?thesis
      by (intro exI[of _ rb] exI[of _ wb] exI[of _ "Threw Uninitialize e"])
         (auto simp: export_to_obj_unfold[OF body])
  next
    case (Inr a)
    with run u body show ?thesis
      by (intro exI[of _ rb] exI[of _ wb] exI[of _ "Returned Uninitialize"])
         (auto simp: export_to_obj_unfold[OF body])
  qed
qed

text \<open>The three shapes of a run of export_to_obj.\<close>

lemma export_to_obj_stdout:
  assumes run: "export_to_obj M inp outp w = (r, w')"
  shows "((\<exists>n z. stdout w' = stdout w @ [success_line n outp z]) \<and> (\<forall>k. r \<noteq> Exit k)) \<or>
         ((\<exists>msg. stdout w' = stdout w @ [error_line msg]) \<and> (\<forall>a. r \<noteq> Ok a) \<and> (\<forall>k. r = Exit k \<longrightarrow> k = 1)) \<or>
         (stdout w' = stdout w \<and> (\<exists>e. r = Raise e))"
proof -
  from export_to_obj_result[OF run] obtain rb wb u where
    body: "obj_try_body M inp outp w = (rb, wb)" and
    out: "stdout w' = stdout wb @ handler_output rb" and
    u: "call_of u = Uninitialize" and
    r: "r = (case u of Returned c \<Rightarrow> handled rb | Threw c e \<Rightarrow> Raise e)"
    by blast
  note rep = reportsD[OF reports_obj_try_body body]
  show ?thesis
  proof (cases rb)
    case (Ok a)
    with rep out r show ?thesis by (cases u) auto
  next
    case (Raise e)
    with rep out r show ?thesis by (cases u) auto
  next
    case (Exit k)
    with rep out r show ?thesis by (cases u) auto
  qed
qed

lemma thrown_member:
  "Threw c e \<in> set evs \<Longrightarrow> Threw c e \<in> set (filter is_thrown evs)"
  by simp

lemma export_to_obj_exception:
  assumes run: "export_to_obj M inp outp w = (r, w')"
    and thrown: "Threw c e \<in> set (trace w')" "Threw c e \<notin> set (trace w)"
    and c: "conversion_call c" and e: "is_Exception e"
    and fresh: "\<forall>ev\<in>set (trace w). call_of ev \<noteq> Uninitialize"
  shows "stdout w' = stdout w @ [error_line (exc_str e)] \<and>
         call_of (last (trace w')) = Uninitialize \<and>
         (Returned Uninitialize \<in> set (trace w') \<longrightarrow> r = Exit 1) \<and>
         (\<forall>e2. Threw Uninitialize e2 \<in> set (trace w') \<longrightarrow> r = Raise e2)"
proof -
  from export_to_obj_result[OF run] obtain rb wb u where
    body: "obj_try_body M inp outp w = (rb, wb)" and
    out: "stdout w' = stdout wb @ handler_output rb" and
    tr: "trace w' = trace wb @ [u]" and u: "call_of u = Uninitialize" and
    r: "r = (case u of Returned c \<Rightarrow> handled rb | Threw c e \<Rightarrow> Raise e)"
    by blast
  from tracedD[OF traced_obj_try_body body] obtain evs where
    evs: "trace wb = trace w @ evs" and
    conv: "\<forall>ev\<in>set evs. conversion_call (call_of ev)" and
    sh: "case rb of
              Raise e \<Rightarrow> (\<exists>c. filter is_thrown evs = [Threw c e])
            | Ok a \<Rightarrow> filter is_thrown evs = []
            | Exit n \<Rightarrow> filter is_thrown evs = []"
    by blast
  from thrown tr evs u c have "Threw c e \<in> set evs"
    by (auto simp: conversion_call_def)
  then have mem: "Threw c e \<in> set (filter is_thrown evs)" by simp
  have rb: "rb = Raise e"
  proof (cases rb)
    case (Raise e')
    with sh obtain c' where "filter is_thrown evs = [Threw c' e']" by auto
    with mem have "Threw c e \<in> set [Threw c' e']" by (simp only:)
    with Raise show ?thesis by simp
  next
    case (Ok a)
    with sh mem show ?thesis by (simp only: res.case) simp
  next
    case (Exit k)
    with sh mem show ?thesis by (simp only: res.case) simp
  qed
  from reportsD[OF reports_obj_try_body body] rb have "stdout wb = stdout w" by simp
  with out rb e have o: "stdout w' = stdout w @ [error_line (exc_str e)]" by simp
  have old: "\<forall>ev\<in>set (trace w @ evs). call_of ev \<noteq> Uninitialize"
    using fresh conv by (auto simp: conversion_call_def)
  have l: "call_of (last (trace w')) = Uninitialize"
    using tr u by simp
  have a: "r = Exit 1" if "Returned Uninitialize \<in> set (trace w')"
  proof -
    from old have "call_of (Returned Uninitialize) \<noteq> Uninitialize"
      if "Returned Uninitialize \<in> set (trace w @ evs)" using that by blast
    then have "Returned Uninitialize \<notin> set (trace w @ evs)" by auto
    with that tr evs have "u = Returned Uninitialize" by auto
    with r rb e show ?thesis by simp
  qed
  have b: "r = Raise e2" if "Threw Uninitialize e2 \<in> set (trace w')" for e2
  proof -
    from old have "call_of (Threw Uninitialize e2) \<noteq> Uninitialize"
      if "Threw Uninitialize e2 \<in> set (trace w @ evs)" using that by blast
    then have "Threw Uninitialize e2 \<notin> set (trace w @ evs)" by auto
    with that tr evs have "u = Threw Uninitialize e2" by auto
    with r show ?thesis by simp
  qed
  from o l a b show ?thesis by blast
qed

lemma seq_Ok_inv:
  "seq m f w = (Ok b, w') \<Longrightarrow> \<exists>a w1. m w = (Ok a, w1) \<and> f a w1 = (Ok b, w')"
  by (auto simp: seq_def split: prod.splits res.splits)

lemma collect_transforms_hstate:
  "collect_transforms M ms ts w = (r, w') \<Longrightarrow> hstate w' = hstate w"
  by (drule collect_transforms_frame) simp

lemma collect_transforms_stdout:
  "collect_transforms M ms ts w = (r, w') \<Longrightarrow> stdout w' = stdout w"
  by (drule collect_transforms_frame) simp

lemma obj_try_body_success:
  assumes run: "obj_try_body M inp outp w = (Ok u, wb)"
  shows "\<exists>h1 ms hs z.
           cmds_file_open M inp (hstate w) = (Inr (), h1) \<and>
           cmds_ls_mesh M h1 = Inr (Some ms) \<and> ms \<noteq> [] \<and>
           cmds_file_export M outp hs = (Inr (), hstate wb) \<and>
           (if maya_path_exists M outp (hstate wb)
            then maya_getsize M outp (hstate wb) = Inr z else z = 0) \<and>
           stdout wb = stdout w @ [success_line (int (length ms)) outp z]"
proof -
  obtain x h1 where o: "cmds_file_open M inp (hstate w) = (x, h1)"
    by (cases "cmds_file_open M inp (hstate w)")
  from run o have x: "x = Inr ()"
    by (cases x) (simp_all add: obj_try_body_def)
  let ?w1 = "w\<lparr>hstate := h1, trace := trace w @ [Returned (FileOpen inp)]\<rparr>"
  obtain y where l: "cmds_ls_mesh M h1 = y" by simp
  from run o x l obtain meshes where y: "y = Inr meshes"
    by (cases y) (simp_all add: obj_try_body_def)
  from run o x l y have t: "truthy meshes"
    by (cases "truthy meshes") (simp_all add: obj_try_body_def sys_exit_def)
  then obtain ms where ms: "meshes = Some ms" "ms \<noteq> []"
    by (cases meshes rule: truthy.cases) simp_all
  let ?w2 = "?w1\<lparr>trace := trace ?w1 @ [Returned LsMesh]\<rparr>"
  from run o x l y t ms
  have rest: "seq (collect_transforms M ms []) (\<lambda>transforms.
     seq (if transforms \<noteq> []
          then call (Select transforms) (cmds_select M transforms)
          else return ()) (\<lambda>u.
     seq (call (FileExport outp) (cmds_file_export M outp)) (\<lambda>u.
     seq (output_size M outp) (\<lambda>file_size.
     print (success_line (int (length ms)) outp file_size))))) ?w2 = (Ok u, wb)"
    by (simp add: obj_try_body_def)
  from seq_Ok_inv[OF rest] obtain ts w3 where
    c: "collect_transforms M ms [] ?w2 = (Ok ts, w3)" and
    rest2: "seq (if ts \<noteq> []
          then call (Select ts) (cmds_select M ts)
          else return ()) (\<lambda>u.
     seq (call (FileExport outp) (cmds_file_export M outp)) (\<lambda>u.
     seq (output_size M outp) (\<lambda>file_size.
     print (success_line (int (length ms)) outp file_size)))) w3 = (Ok u, wb)"
    by blast
  have s3: "stdout w3 = stdout w" using collect_transforms_stdout[OF c] by simp
  from seq_Ok_inv[OF rest2] obtain w4 where
    sel: "(if ts \<noteq> [] then call (Select ts) (cmds_select M ts) else return ()) w3 = (Ok (), w4)" and
    rest3: "seq (call (FileExport outp) (cmds_file_export M outp)) (\<lambda>u.
     seq (output_size M outp) (\<lambda>file_size.
     print (success_line (int (length ms)) outp file_size))) w4 = (Ok u, wb)"
    by auto
  have s4: "stdout w4 = stdout w"
    using sel s3 by (auto simp: call_def return_def split: if_splits prod.splits sum.splits)
  obtain ex hx where e: "cmds_file_export M outp (hstate w4) = (ex, hx)"
    by (cases "cmds_file_export M outp (hstate w4)")
  from rest3 e have ex: "ex = Inr ()" by (cases ex) simp_all
  let ?w5 = "w4\<lparr>hstate := hx, trace := trace w4 @ [Returned (FileExport outp)]\<rparr>"
  from rest3 e ex have rest4: "seq (output_size M outp) (\<lambda>file_size.
     print (success_line (int (length ms)) outp file_size)) ?w5 = (Ok u, wb)"
    by simp
  show ?thesis
  proof (cases "maya_path_exists M outp hx")
    case True
    with rest4 obtain z where "maya_getsize M outp hx = Inr z"
      "wb = ?w5\<lparr>trace := trace ?w5 @ [Returned (PathGetsize outp)],
                 stdout := stdout ?w5 @ [success_line (int (length ms)) outp z]\<rparr>"
      by (cases "maya_getsize M outp hx") (auto simp: output_size_def print_def)
    with True o x l y ms e ex s4 show ?thesis by auto
  next
    case False
    with rest4 have "wb = ?w5\<lparr>stdout := stdout ?w5 @ [success_line (int (length ms)) outp 0]\<rparr>"
      by (auto simp: output_size_def print_def)
    with False o x l y ms e ex s4 show ?thesis by auto
  qed
qed

lemma export_to_obj_success_line:
  assumes run: "export_to_obj M inp outp w = (r, w')" and empty: "stdout w = []"
    and l: "l \<in> set (stdout w')" "is_success_line l"
  shows "\<exists>h1 ms hs hx z.
           cmds_file_open M inp (hstate w) = (Inr (), h1) \<and>
           cmds_ls_mesh M h1 = Inr (Some ms) \<and> ms \<noteq> [] \<and>
           cmds_file_export M outp hs = (Inr (), hx) \<and>
           hstate w' = snd (standalone_uninitialize M hx) \<and>
           (if maya_path_exists M outp hx then maya_getsize M outp hx = Inr z else z = 0) \<and>
           l = success_line (int (length ms)) outp z \<and> stdout w' = [l]"
proof -
  from export_to_obj_result[OF run] obtain rb wb u where
    body: "obj_try_body M inp outp w = (rb, wb)" and
    out: "stdout w' = stdout wb @ handler_output rb" and
    u: "call_of u = Uninitialize" and
    h: "hstate w' = snd (standalone_uninitialize M (hstate wb))"
    by blast
  note rep = reportsD[OF reports_obj_try_body body]
  show ?thesis
  proof (cases rb)
    case (Ok a)
    with body have b: "obj_try_body M inp outp w = (Ok a, wb)" by simp
    from obj_try_body_success[OF b] obtain h1 ms hs z where
      d: "cmds_file_open M inp (hstate w) = (Inr (), h1)"
         "cmds_ls_mesh M h1 = Inr (Some ms)" "ms \<noteq> []"
         "cmds_file_export M outp hs = (Inr (), hstate wb)"
         "if maya_path_exists M outp (hstate wb)
            then maya_getsize M outp (hstate wb) = Inr z else z = 0"
         "stdout wb = stdout w @ [success_line (int (length ms)) outp z]"
      by blast
    from d(6) out Ok empty l have "l = success_line (int (length ms)) outp z" "stdout w' = [l]"
      by simp_all
    with d h show ?thesis by blast
  next
    case (Raise e)
    with rep out empty l show ?thesis by (auto split: if_splits)
  next
    case (Exit k)
    with rep out empty l show ?thesis by auto
  qed
qed

lemma run_process_export_to_obj:
  "run_process (export_to_obj M inp outp) h0 =
     (to_outcome (fst (export_to_obj M inp outp \<lparr>hstate = h0, trace = [], stdout = []\<rparr>)),
      snd (export_to_obj M inp outp \<lparr>hstate = h0, trace = [], stdout = []\<rparr>))"
  by (simp add: run_process_def split: prod.splits)

lemmas demo_maya_eval =
  run_maya_def maya_main_def run_process_def export_to_obj_def try_finally_def try_except_def
  obj_try_body_def output_size_def demo_maya_def call_def print_def report_error_def
  sys_exit_def

lemma truthy_Some [simp]: "truthy (Some xs) = (xs \<noteq> [])"
  by (cases xs) simp_all

lemma seq_eq_Ok: "m w = (Ok a, w1) \<Longrightarrow> seq m f w = f a w1"
  by (simp add: seq_def)

lemma collect_transforms_no_parent:
  "\<forall>m\<in>set ms. \<exists>p. cmds_listRelatives M m (hstate w) = Inr p \<and> \<not> truthy p \<Longrightarrow>
     collect_transforms M ms ts w =
       (Ok ts, w\<lparr>trace := trace w @ map (\<lambda>m. Returned (ListRelatives m)) ms\<rparr>)"
proof (induction ms arbitrary: w)
  case Nil
  then show ?case by (simp add: return_def)
next
  case (Cons m ms)
  from Cons.prems obtain p where p: "cmds_listRelatives M m (hstate w) = Inr p" "\<not> truthy p"
    by auto
  let ?w1 = "w\<lparr>trace := trace w @ [Returned (ListRelatives m)]\<rparr>"
  from Cons.prems have "\<forall>m\<in>set ms. \<exists>p. cmds_listRelatives M m (hstate ?w1) = Inr p \<and> \<not> truthy p"
    by simp
  from Cons.IH[OF this] p show ?case
    by (simp add: collect_transforms_step del: collect_transforms.simps)
qed

lemma obj_try_body_no_parent:
  assumes op: "cmds_file_open M inp (hstate w) = (Inr (), h1)"
    and ls: "cmds_ls_mesh M h1 = Inr (Some ms)" and ne: "ms \<noteq> []"
    and np: "\<forall>m\<in>set ms. \<exists>p. cmds_listRelatives M m h1 = Inr p \<and> \<not> truthy p"
  shows "\<exists>rest. trace (snd (obj_try_body M inp outp w)) =
           trace w @ [Returned (FileOpen inp), Returned LsMesh] @
           map (\<lambda>m. Returned (ListRelatives m)) ms @
           [export_event outp (fst (cmds_file_export M outp h1))] @ rest \<and>
           (\<forall>ev\<in>set rest. call_of ev = PathGetsize outp)"
proof -
  let ?w2 = "w\<lparr>hstate := h1, trace := trace w @ [Returned (FileOpen inp), Returned LsMesh]\<rparr>"
  from np have "\<forall>m\<in>set ms. \<exists>p. cmds_listRelatives M m (hstate ?w2) = Inr p \<and> \<not> truthy p"
    by simp
  note ct = collect_transforms_no_parent[OF this, of "[]"]
  note sq = seq_eq_Ok[of "collect_transforms M ms []" _ "[]", OF ct]
  let ?w3 = "?w2\<lparr>trace := trace ?w2 @ map (\<lambda>m. Returned (ListRelatives m)) ms\<rparr>"
  have body: "obj_try_body M inp outp w =
     seq (call (FileExport outp) (cmds_file_export M outp)) (\<lambda>u.
     seq (output_size M outp) (\<lambda>file_size.
     print (success_line (int (length ms)) outp file_size))) ?w3"
    using op ls ne by (simp add: obj_try_body_def sq)
  obtain x hx where e: "cmds_file_export M outp h1 = (x, hx)"
    by (cases "cmds_file_export M outp h1")
  show ?thesis
  proof (cases x)
    case (Inl err)
    with e body show ?thesis by simp
  next
    case (Inr u)
    show ?thesis
    proof (cases "maya_path_exists M outp hx")
      case False
      with e Inr body show ?thesis by (simp add: output_size_def print_def return_def)
    next
      case True
      with e Inr body show ?thesis
        by (cases "maya_getsize M outp hx") (simp_all add: output_size_def print_def)
    qed
  qed
qed

section \<open>The GLB exporter: shape of every run\<close>

lemma traced_link_objects:
  "(\<And>ob. P (ObjectsLink ob)) \<Longrightarrow> traced P (link_objects B objs)"
proof (induction objs)
  case Nil
  then show ?case by (simp add: traced_return)
next
  case (Cons obj rest)
  have "traced P (case obj of Some ob \<Rightarrow> call (ObjectsLink ob) (objects_link B ob)
                    | None \<Rightarrow> return ())"
    using Cons.prems by (cases obj) (simp_all add: traced_return traced_call)
  with Cons show ?case by (simp add: traced_seq)
qed

lemma gate_link_objects: "gate (link_objects B objs)"
proof (induction objs)
  case Nil
  then show ?case by (simp add: gate_return)
next
  case (Cons obj rest)
  have "gate (case obj of Some ob \<Rightarrow> call (ObjectsLink ob) (objects_link B ob)
                    | None \<Rightarrow> (return () :: ('a, 'b bpy_call, unit) prog))"
    by (cases obj) (simp_all add: gate_return gate_call)
  with Cons show ?case by (simp add: gate_seq)
qed

lemma traced_select_meshes:
  "(\<And>ob. P (SelectSet ob)) \<Longrightarrow> traced P (select_meshes B objs n)"
  by (induction objs arbitrary: n) (simp_all add: traced_return traced_seq traced_call)

lemma gate_select_meshes: "gate (select_meshes B objs n)"
  by (induction objs arbitrary: n) (simp_all add: gate_return gate_seq gate_call)

lemma traced_load_and_count:
  assumes "P (LibrariesLoad inp)" "\<And>ob. P (ObjectsLink ob)" "P SelectAllDeselect"
    "\<And>ob. P (SelectSet ob)"
  shows "traced P (load_and_count B inp)"
  unfolding load_and_count_def
  by (intro traced_seq traced_call traced_reads traced_link_objects traced_select_meshes assms)

lemma gate_load_and_count: "gate (load_and_count B inp)"
  unfolding load_and_count_def
  by (intro gate_seq gate_call gate_reads gate_link_objects gate_select_meshes)

lemma traced_fallback_count:
  assumes "P (OpenMainfile inp)" "\<And>ob. P (SelectSet ob)"
  shows "traced P (fallback_count B inp n)"
  unfolding fallback_count_def
  by (intro traced_if traced_seq traced_call traced_reads traced_select_meshes traced_return assms)

lemma gate_fallback_count: "gate (fallback_count B inp n)"
  unfolding fallback_count_def
  by (intro gate_if gate_seq gate_call gate_reads gate_select_meshes gate_return)

lemma traced_validate_and_export:
  assumes "P TransformApply" "P (ExportGltf outp)" "P (GetSize outp)"
  shows "traced P (validate_and_export B outp n)"
  unfolding validate_and_export_def
  by (intro traced_if traced_seq traced_call traced_query traced_print traced_sys_exit
        traced_return assms)

lemma reports_validate_and_export: "reports outp (validate_and_export B outp n)"
  unfolding validate_and_export_def
  by (intro reports_seq reports_print gate_if gate_no_mesh gate_return gate_call gate_query)

lemma traced_glb_try_body: "traced in_try_block (glb_try_body B inp outp)"
  unfolding glb_try_body_def
  by (intro traced_seq traced_load_and_count traced_fallback_count traced_validate_and_export)
     (simp_all add: in_try_block_def)

lemma reports_glb_try_body: "reports outp (glb_try_body B inp outp)"
  unfolding glb_try_body_def
  by (intro reports_seq gate_load_and_count gate_fallback_count reports_validate_and_export)

lemma export_to_glb_unfold:
  "export_to_glb B inp outp w =
     (case wm_read_factory_settings B (hstate w) of
        (Inl e, h) \<Rightarrow>
          (Raise e, w\<lparr>hstate := h, trace := trace w @ [Threw ReadFactorySettings e]\<rparr>)
      | (Inr u, h) \<Rightarrow>
          (case glb_try_body B inp outp
                  (w\<lparr>hstate := h, trace := trace w @ [Returned ReadFactorySettings]\<rparr>) of
             (rb, wb) \<Rightarrow> (handled rb, wb\<lparr>stdout := stdout wb @ handler_output rb\<rparr>)))"
proof -
  obtain x h where r: "wm_read_factory_settings B (hstate w) = (x, h)"
    by (cases "wm_read_factory_settings B (hstate w)")
  show ?thesis
  proof (cases x)
    case (Inl e)
    with r show ?thesis by (simp add: export_to_glb_def)
  next
    case (Inr u)
    let ?w1 = "w\<lparr>hstate := h, trace := trace w @ [Returned ReadFactorySettings]\<rparr>"
    obtain rb wb where b: "glb_try_body B inp outp ?w1 = (rb, wb)"
      by (cases "glb_try_body B inp outp ?w1")
    from try_except_report[of "glb_try_body B inp outp" ?w1 rb wb, OF b] r Inr b
    show ?thesis by (simp add: export_to_glb_def)
  qed
qed

lemma run_blender_unfold:
  "run_blender B argv h0 =
     (if length argv < 4
      then (SysExit 1, \<lparr>hstate = h0, trace = [], stdout = [error_line usage_msg]\<rparr>)
      else (case first_index argv ''--'' of
              None \<Rightarrow> (Uncaught (ValueError ''--''), \<lparr>hstate = h0, trace = [], stdout = []\<rparr>)
            | Some i \<Rightarrow>
                if length (drop (i + 1) argv) < 2
                then (Uncaught IndexError, \<lparr>hstate = h0, trace = [], stdout = []\<rparr>)
                else (case export_to_glb B (drop (i + 1) argv ! 0) (drop (i + 1) argv ! 1)
                             \<lparr>hstate = h0, trace = [], stdout = []\<rparr> of
                        (r, w) \<Rightarrow> (to_outcome r, w))))"
  by (auto simp: run_blender_def run_process_def blender_main_def sys_exit_def
      split: option.splits prod.splits)

lemmas demo_bpy_eval =
  run_blender_unfold export_to_glb_unfold glb_try_body_def load_and_count_def
  fallback_count_def validate_and_export_def demo_bpy_def call_def print_def sys_exit_def
  return_def run_process_def

lemma gateD:
  "gate m \<Longrightarrow> m w = (r, w') \<Longrightarrow>
     (case r of
        Exit n \<Rightarrow> n = 1 \<and> stdout w' = stdout w @ [error_line no_mesh_msg]
      | Ok a \<Rightarrow> stdout w' = stdout w
      | Raise e \<Rightarrow> stdout w' = stdout w)"
  unfolding gate_def by blast

lemma select_meshes_none:
  "\<forall>ob\<in>set objs. obj_type B ob \<noteq> ''MESH'' \<Longrightarrow> select_meshes B objs n w = (Ok n, w)"
  by (induction objs) (simp_all add: return_def)

lemma select_meshes_count:
  "select_meshes B objs n w = (Ok m, w') \<Longrightarrow>
     m = n + int (length (filter (\<lambda>ob. obj_type B ob = ''MESH'') objs))"
proof (induction objs arbitrary: n w)
  case Nil
  then show ?case by (simp add: return_def)
next
  case (Cons ob rest)
  show ?case
  proof (cases "obj_type B ob = ''MESH''")
    case False
    with Cons.prems have "select_meshes B rest n w = (Ok m, w')" by simp
    from Cons.IH[OF this] False show ?thesis by simp
  next
    case True
    with Cons.prems have
      "seq (call (SelectSet ob) (select_set B ob)) (\<lambda>u. select_meshes B rest (n + 1)) w = (Ok m, w')"
      by simp
    from seq_Ok_inv[OF this] obtain w1 where "select_meshes B rest (n + 1) w1 = (Ok m, w')"
      by blast
    from Cons.IH[OF this] True show ?thesis by simp
  qed
qed

lemma run_process_export_to_glb:
  "run_process (export_to_glb B inp outp) h0 =
     (to_outcome (fst (export_to_glb B inp outp \<lparr>hstate = h0, trace = [], stdout = []\<rparr>)),
      snd (export_to_glb B inp outp \<lparr>hstate = h0, trace = [], stdout = []\<rparr>))"
  by (simp add: run_process_def split: prod.splits)

lemma traced_extends:
  "traced P m \<Longrightarrow> m w = (r, w') \<Longrightarrow> set (trace w) \<subseteq> set (trace w')"
  by (drule (1) tracedD) auto

lemma traced_new_events:
  "traced P m \<Longrightarrow> m w = (r, w') \<Longrightarrow> ev \<in> set (trace w') \<Longrightarrow>
     ev \<in> set (trace w) \<or> P (call_of ev)"
  by (drule (1) tracedD) auto

lemma validate_success:
  assumes "validate_and_export B outp m w = (Ok u, w')"
  shows "\<exists>z. stdout w' = stdout w @ [success_line m outp z]"
  using assms unfolding validate_and_export_def
  by (auto simp: print_def sys_exit_def split: if_splits prod.splits sum.splits)

lemma fallback_opens:
  assumes "fallback_count B inp 0 w = (r, w')"
  shows "\<exists>ev\<in>set (trace w'). call_of ev = OpenMainfile inp"
proof -
  obtain x h where o: "wm_open_mainfile B inp (hstate w) = (x, h)"
    by (cases "wm_open_mainfile B inp (hstate w)")
  show ?thesis
  proof (cases x)
    case (Inl e)
    with o assms show ?thesis by (auto simp: fallback_count_def)
  next
    case (Inr u)
    let ?w1 = "w\<lparr>hstate := h, trace := trace w @ [Returned (OpenMainfile inp)]\<rparr>"
    from o Inr assms have s: "select_meshes B (scene_objects B h) 0 ?w1 = (r, w')"
      by (simp add: fallback_count_def)
    have "traced (\<lambda>c. True) (select_meshes B (scene_objects B h) 0)"
      by (rule traced_select_meshes) simp
    from traced_extends[OF this s] have "Returned (OpenMainfile inp) \<in> set (trace w')"
      by auto
    then show ?thesis by force
  qed
qed

lemma glb_body_opens_iff:
  assumes load: "load_and_count B inp w1 = (r1, w2)"
    and body: "glb_try_body B inp outp w1 = (rb, wb)"
    and base: "\<forall>ev\<in>set (trace w1). call_of ev \<noteq> OpenMainfile inp"
  shows "(\<exists>ev\<in>set (trace wb). call_of ev = OpenMainfile inp) = (r1 = Ok 0)"
proof -
  let ?Q = "\<lambda>c. c \<noteq> OpenMainfile inp"
  have tl: "traced ?Q (load_and_count B inp)"
    by (rule traced_load_and_count) simp_all
  have tv: "\<And>n. traced ?Q (validate_and_export B outp n)"
    by (rule traced_validate_and_export) simp_all
  have no2: "\<forall>ev\<in>set (trace w2). call_of ev \<noteq> OpenMainfile inp"
    using traced_new_events[OF tl load] base by blast
  show ?thesis
  proof (cases r1)
    case (Raise e)
    with load body have "wb = w2" by (simp add: glb_try_body_def seq_def)
    with no2 Raise show ?thesis by auto
  next
    case (Exit k)
    with load body have "wb = w2" by (simp add: glb_try_body_def seq_def)
    with no2 Exit show ?thesis by auto
  next
    case (Ok n)
    with load have l': "load_and_count B inp w1 = (Ok n, w2)" by simp
    from body have rest: "seq (fallback_count B inp n) (validate_and_export B outp) w2 = (rb, wb)"
      unfolding glb_try_body_def
      by (simp only: seq_eq_Ok[of "load_and_count B inp" w1 n w2, OF l'])
    show ?thesis
    proof (cases "n = 0")
      case False
      with rest have "validate_and_export B outp n w2 = (rb, wb)"
        by (simp add: fallback_count_def)
      from traced_new_events[OF tv this] no2 have
        "\<forall>ev\<in>set (trace wb). call_of ev \<noteq> OpenMainfile inp" by blast
      with False Ok show ?thesis by auto
    next
      case True
      obtain r3 w3 where f: "fallback_count B inp 0 w2 = (r3, w3)"
        by (cases "fallback_count B inp 0 w2")
      from fallback_opens[OF f] obtain ev where
        ev: "ev \<in> set (trace w3)" "call_of ev = OpenMainfile inp" by blast
      have "set (trace w3) \<subseteq> set (trace wb)"
      proof (cases r3)
        case (Ok m)
        with f rest True have "validate_and_export B outp m w3 = (rb, wb)"
          by (simp add: seq_def)
        from traced_extends[OF tv this] show ?thesis .
      next
        case (Raise e)
        with f rest True have "wb = w3" by (simp add: seq_def)
        then show ?thesis by simp
      next
        case (Exit k)
        with f rest True have "wb = w3" by (simp add: seq_def)
        then show ?thesis by simp
      qed
      with ev True Ok show ?thesis by auto
    qed
  qed
qed

lemma glb_recount:
  assumes primary: "load_and_count B inp w1 = (Ok 0, w2)"
    and fb: "wm_open_mainfile B inp (hstate w2) = (Inr (), h3)"
    and body: "glb_try_body B inp outp w1 = (Ok u, wb)"
  shows "\<exists>z. stdout wb = stdout w1 @
           [success_line (int (length (filter (\<lambda>ob. obj_type B ob = ''MESH'')
              (scene_objects B h3)))) outp z]"
proof -
  from body have rest: "seq (fallback_count B inp 0) (validate_and_export B outp) w2 = (Ok u, wb)"
    unfolding glb_try_body_def
    by (simp only: seq_eq_Ok[of "load_and_count B inp" w1 0 w2, OF primary])
  from seq_Ok_inv[OF rest] obtain m w3 where
    f: "fallback_count B inp 0 w2 = (Ok m, w3)" and
    v: "validate_and_export B outp m w3 = (Ok u, wb)"
    by blast
  let ?w2' = "w2\<lparr>hstate := h3, trace := trace w2 @ [Returned (OpenMainfile inp)]\<rparr>"
  from f fb have "select_meshes B (scene_objects B h3) 0 ?w2' = (Ok m, w3)"
    by (simp add: fallback_count_def)
  from select_meshes_count[OF this]
  have m: "m = int (length (filter (\<lambda>ob. obj_type B ob = ''MESH'') (scene_objects B h3)))"
    by simp
  from gateD[OF gate_load_and_count primary] have "stdout w2 = stdout w1" by simp
  moreover from gateD[OF gate_fallback_count f] have "stdout w3 = stdout w2" by simp
  moreover from validate_success[OF v] obtain z where
    "stdout wb = stdout w3 @ [success_line m outp z]" by blast
  ultimately show ?thesis using m by auto
qed

lemma blender_shapes:
  fixes B :: "('h, 'o) bpy_host"
  shows "(fst (run_blender B argv h0) = Finished \<and>
      (\<exists>n p z. stdout (snd (run_blender B argv h0)) = [success_line n p z])) \<or>
   (fst (run_blender B argv h0) = SysExit 1 \<and>
      (\<exists>msg. stdout (snd (run_blender B argv h0)) = [error_line msg])) \<or>
   ((\<exists>e. fst (run_blender B argv h0) = Uncaught e) \<and>
      stdout (snd (run_blender B argv h0)) = [])"
proof (cases "length argv < 4")
  case True
  then show ?thesis by (auto simp: run_blender_unfold)
next
  case long: False
  show ?thesis
  proof (cases "first_index argv ''--''")
    case None
    with long show ?thesis by (simp add: run_blender_unfold)
  next
    case (Some i)
    show ?thesis
    proof (cases "length (drop (i + 1) argv) < 2")
      case True
      with long Some show ?thesis by (simp add: run_blender_unfold)
    next
      case False
      let ?inp = "drop (i + 1) argv ! 0" and ?outp = "drop (i + 1) argv ! 1"
      let ?w0 = "\<lparr>hstate = h0, trace = [], stdout = []\<rparr> :: ('h, 'o bpy_call) world"
      have R: "run_blender B argv h0 =
                 (to_outcome (fst (export_to_glb B ?inp ?outp ?w0)),
                  snd (export_to_glb B ?inp ?outp ?w0))"
        using long Some False by (simp add: run_blender_unfold split: prod.splits)
      obtain x h1 where r: "wm_read_factory_settings B h0 = (x, h1)"
        by (cases "wm_read_factory_settings B h0")
      show ?thesis
      proof (cases x)
        case (Inl e)
        with r show ?thesis unfolding R by (simp add: export_to_glb_unfold)
      next
        case (Inr u)
        let ?w1 = "\<lparr>hstate = h1, trace = [Returned ReadFactorySettings], stdout = []\<rparr>
                     :: ('h, 'o bpy_call) world"
        obtain rb wb where b: "glb_try_body B ?inp ?outp ?w1 = (rb, wb)"
          by (cases "glb_try_body B ?inp ?outp ?w1")
        have E: "export_to_glb B ?inp ?outp ?w0 =
                   (handled rb, wb\<lparr>stdout := stdout wb @ handler_output rb\<rparr>)"
          using r Inr b by (simp add: export_to_glb_unfold)
        note rep = reportsD[OF reports_glb_try_body b]
        show ?thesis
        proof (cases rb)
          case (Ok a)
          with rep show ?thesis unfolding R E by auto
        next
          case (Raise e)
          with rep show ?thesis unfolding R E by auto
        next
          case (Exit k)
          with rep show ?thesis unfolding R E by auto
        qed
      qed
    qed
  qed
qed

lemma maya_shapes:
  fixes M :: "'h maya_host"
  shows "((\<exists>n p z. stdout (snd (run_maya M argv h0)) = [success_line n p z]) \<and>
      (fst (run_maya M argv h0) = Finished \<or> (\<exists>e. fst (run_maya M argv h0) = Uncaught e))) \<or>
   ((\<exists>msg. stdout (snd (run_maya M argv h0)) = [error_line msg]) \<and>
      (fst (run_maya M argv h0) = SysExit 1 \<or> (\<exists>e. fst (run_maya M argv h0) = Uncaught e))) \<or>
   (stdout (snd (run_maya M argv h0)) = [] \<and> (\<exists>e. fst (run_maya M argv h0) = Uncaught e))"
proof -
  obtain x h where i: "standalone_initialize M h0 = (x, h)"
    by (cases "standalone_initialize M h0")
  show ?thesis
  proof (cases x)
    case (Inl e)
    with i show ?thesis by (simp add: run_maya_unfold)
  next
    case (Inr u)
    show ?thesis
    proof (cases "length argv < 3")
      case True
      with i Inr show ?thesis by (simp add: run_maya_unfold)
    next
      case False
      let ?w1 = "\<lparr>hstate = h, trace = [Returned Initialize], stdout = []\<rparr>
                   :: ('h, maya_call) world"
      obtain r w' where run: "export_to_obj M (argv ! 1) (argv ! 2) ?w1 = (r, w')"
        by (cases "export_to_obj M (argv ! 1) (argv ! 2) ?w1")
      have R: "run_maya M argv h0 = (to_outcome r, w')"
        using i Inr False run by (simp add: run_maya_unfold)
      from export_to_obj_stdout[OF run] show ?thesis
        unfolding R by (cases r) auto
    qed
  qed
qed

lemma blender_exception:
  fixes B :: "('h, 'o) bpy_host"
  assumes thrown: "Threw c e \<in> set (trace (snd (run_blender B argv h0)))"
    and c: "in_try_block c" and e: "is_Exception e"
  shows "stdout (snd (run_blender B argv h0)) = [error_line (exc_str e)] \<and>
         fst (run_blender B argv h0) = SysExit 1"
proof (cases "length argv < 4")
  case True
  with thrown show ?thesis by (simp add: run_blender_unfold)
next
  case long: False
  show ?thesis
  proof (cases "first_index argv ''--''")
    case None
    with long thrown show ?thesis by (simp add: run_blender_unfold)
  next
    case (Some i)
    show ?thesis
    proof (cases "length (drop (i + 1) argv) < 2")
      case True
      with long Some thrown show ?thesis by (simp add: run_blender_unfold)
    next
      case False
      let ?inp = "drop (i + 1) argv ! 0" and ?outp = "drop (i + 1) argv ! 1"
      let ?w0 = "\<lparr>hstate = h0, trace = [], stdout = []\<rparr> :: ('h, 'o bpy_call) world"
      have R: "run_blender B argv h0 =
                 (to_outcome (fst (export_to_glb B ?inp ?outp ?w0)),
                  snd (export_to_glb B ?inp ?outp ?w0))"
        using long Some False by (simp add: run_blender_unfold split: prod.splits)
      obtain x h1 where r: "wm_read_factory_settings B h0 = (x, h1)"
        by (cases "wm_read_factory_settings B h0")
      show ?thesis
      proof (cases x)
        case (Inl e0)
        with r thrown c show ?thesis
          unfolding R by (simp add: export_to_glb_unfold in_try_block_def)
      next
        case (Inr u)
        let ?w1 = "\<lparr>hstate = h1, trace = [Returned ReadFactorySettings], stdout = []\<rparr>
                     :: ('h, 'o bpy_call) world"
        obtain rb wb where b: "glb_try_body B ?inp ?outp ?w1 = (rb, wb)"
          by (cases "glb_try_body B ?inp ?outp ?w1")
        have E: "export_to_glb B ?inp ?outp ?w0 =
                   (handled rb, wb\<lparr>stdout := stdout wb @ handler_output rb\<rparr>)"
          using r Inr b by (simp add: export_to_glb_unfold)
        from tracedD[OF traced_glb_try_body b] obtain evs where
          evs: "trace wb = Returned ReadFactorySettings # evs" and
          sh: "case rb of
                 Raise e \<Rightarrow> (\<exists>c. filter is_thrown evs = [Threw c e])
               | Ok a \<Rightarrow> filter is_thrown evs = []
               | Exit n \<Rightarrow> filter is_thrown evs = []"
          by auto
        from thrown evs have "Threw c e \<in> set evs" unfolding R E by simp
        then have mem: "Threw c e \<in> set (filter is_thrown evs)" by simp
        have rb: "rb = Raise e"
        proof (cases rb)
          case (Raise e')
          with sh obtain c' where "filter is_thrown evs = [Threw c' e']" by auto
          with mem have "Threw c e \<in> set [Threw c' e']" by (simp only:)
          with Raise show ?thesis by simp
        next
          case (Ok a)
          with sh mem show ?thesis by (simp only: res.case) simp
        next
          case (Exit k)
          with sh mem show ?thesis by (simp only: res.case) simp
        qed
        from reportsD[OF reports_glb_try_body b] rb have "stdout wb = []" by simp
        with rb e show ?thesis unfolding R E by simp
      qed
    qed
  qed
qed

lemma maya_exception:
  fixes M :: "'h maya_host"
  assumes thrown: "Threw c e \<in> set (trace (snd (run_maya M argv h0)))"
    and c: "conversion_call c" and e: "is_Exception e"
  shows "stdout (snd (run_maya M argv h0)) = [error_line (exc_str e)] \<and>
         call_of (last (trace (snd (run_maya M argv h0)))) = Uninitialize \<and>
         (Returned Uninitialize \<in> set (trace (snd (run_maya M argv h0))) \<longrightarrow>
            fst (run_maya M argv h0) = SysExit 1) \<and>
         (\<forall>e2. Threw Uninitialize e2 \<in> set (trace (snd (run_maya M argv h0))) \<longrightarrow>
            fst (run_maya M argv h0) = Uncaught e2)"
proof -
  obtain x h where i: "standalone_initialize M h0 = (x, h)"
    by (cases "standalone_initialize M h0")
  show ?thesis
  proof (cases x)
    case (Inl e0)
    with i thrown c show ?thesis by (simp add: run_maya_unfold conversion_call_def)
  next
    case (Inr u)
    show ?thesis
    proof (cases "length argv < 3")
      case True
      with i Inr thrown show ?thesis by (simp add: run_maya_unfold)
    next
      case False
      let ?w1 = "\<lparr>hstate = h, trace = [Returned Initialize], stdout = []\<rparr>
                   :: ('h, maya_call) world"
      obtain r w' where run: "export_to_obj M (argv ! 1) (argv ! 2) ?w1 = (r, w')"
        by (cases "export_to_obj M (argv ! 1) (argv ! 2) ?w1")
      have R: "run_maya M argv h0 = (to_outcome r, w')"
        using i Inr False run by (simp add: run_maya_unfold)
      from thrown have t: "Threw c e \<in> set (trace w')" unfolding R by simp
      have n: "Threw c e \<notin> set (trace ?w1)" by simp
      have f: "\<forall>ev\<in>set (trace ?w1). call_of ev \<noteq> Uninitialize" by simp
      from export_to_obj_exception[OF run t n c e f] show ?thesis unfolding R by auto
    qed
  qed
qed

lemma link_objects_links_return:
  "links_return B objs (hstate w) =
     (case link_objects B objs w of
        (Ok u, w') \<Rightarrow> Some (hstate w')
      | (Raise e, w') \<Rightarrow> None
      | (Exit n, w') \<Rightarrow> None)"
proof (induction objs arbitrary: w)
  case Nil
  then show ?case by (simp add: return_def)
next
  case (Cons obj rest)
  show ?case
  proof (cases obj)
    case None
    with Cons.IH[of w] show ?thesis by simp
  next
    case (Some ob)
    obtain x h' where l: "objects_link B ob (hstate w) = (x, h')"
      by (cases "objects_link B ob (hstate w)")
    show ?thesis
    proof (cases x)
      case (Inl e)
      with Some l show ?thesis by simp
    next
      case (Inr u)
      let ?w1 = "w\<lparr>hstate := h', trace := trace w @ [Returned (ObjectsLink ob)]\<rparr>"
      from Cons.IH[of ?w1] Some l Inr show ?thesis by simp
    qed
  qed
qed

lemma load_and_count_Ok:
  assumes run: "load_and_count B inp w = (Ok n, w2)"
  shows "\<exists>objects h2 h3 h4.
           libraries_load B inp (hstate w) = (Inr objects, h2) \<and>
           links_return B objects h2 = Some h3 \<and>
           object_select_all B h3 = (Inr (), h4) \<and>
           n = int (length (mesh_objects B h4))"
proof -
  obtain x h2 where l: "libraries_load B inp (hstate w) = (x, h2)"
    by (cases "libraries_load B inp (hstate w)")
  from run l obtain objects where x: "x = Inr objects"
    by (cases x) (simp_all add: load_and_count_def)
  let ?w1 = "w\<lparr>hstate := h2, trace := trace w @ [Returned (LibrariesLoad inp)]\<rparr>"
  from run l x have rest:
    "seq (link_objects B objects) (\<lambda>u.
     seq (call SelectAllDeselect (object_select_all B)) (\<lambda>u.
     seq (reads (scene_objects B)) (\<lambda>objs.
     select_meshes B objs 0))) ?w1 = (Ok n, w2)"
    by (simp add: load_and_count_def)
  from seq_Ok_inv[OF rest] obtain u w3 where
    lk: "link_objects B objects ?w1 = (Ok u, w3)" and
    rest2: "seq (call SelectAllDeselect (object_select_all B)) (\<lambda>u.
     seq (reads (scene_objects B)) (\<lambda>objs.
     select_meshes B objs 0)) w3 = (Ok n, w2)"
    by blast
  from link_objects_links_return[of B objects ?w1] lk
  have lr: "links_return B objects h2 = Some (hstate w3)" by simp
  obtain y h4 where d: "object_select_all B (hstate w3) = (y, h4)"
    by (cases "object_select_all B (hstate w3)")
  from rest2 d have y: "y = Inr ()" by (cases y) simp_all
  let ?w4 = "w3\<lparr>hstate := h4, trace := trace w3 @ [Returned SelectAllDeselect]\<rparr>"
  from rest2 d y have "select_meshes B (scene_objects B h4) 0 ?w4 = (Ok n, w2)"
    by simp
  from select_meshes_count[OF this] have "n = int (length (mesh_objects B h4))"
    by (simp add: mesh_objects_def)
  with l x lr d y show ?thesis by blast
qed

lemma load_and_count_zero:
  assumes l: "libraries_load B inp (hstate w) = (Inr objects, h2)"
    and lr: "links_return B objects h2 = Some h3"
    and d: "object_select_all B h3 = (Inr (), h4)"
    and none: "mesh_objects B h4 = []"
  shows "\<exists>w2. load_and_count B inp w = (Ok 0, w2) \<and> hstate w2 = h4"
proof -
  let ?w1 = "w\<lparr>hstate := h2, trace := trace w @ [Returned (LibrariesLoad inp)]\<rparr>"
  obtain r3 w3 where lk: "link_objects B objects ?w1 = (r3, w3)"
    by (cases "link_objects B objects ?w1")
  from link_objects_links_return[of B objects ?w1] lk lr
  obtain u where r3: "r3 = Ok u" and h3: "hstate w3 = h3"
    by (cases r3) simp_all
  from lk r3 have lk': "link_objects B objects ?w1 = (Ok u, w3)" by simp
  let ?w4 = "w3\<lparr>hstate := h4, trace := trace w3 @ [Returned SelectAllDeselect]\<rparr>"
  from none have "\<forall>ob\<in>set (scene_objects B h4). obj_type B ob \<noteq> ''MESH''"
    by (simp add: mesh_objects_def filter_empty_conv)
  then have sm: "select_meshes B (scene_objects B h4) 0 ?w4 = (Ok 0, ?w4)"
    by (rule select_meshes_none)
  have "load_and_count B inp w = (Ok 0, ?w4)"
    using l d h3 sm
    by (simp add: load_and_count_def
          seq_eq_Ok[of "link_objects B objects" ?w1 u w3, OF lk'])
  then show ?thesis by simp
qed

lemma glb_primary_count:
  assumes primary: "load_and_count B inp w1 = (Ok n, w2)" and n: "n \<noteq> 0"
    and body: "glb_try_body B inp outp w1 = (Ok u, wb)"
  shows "\<exists>z. stdout wb = stdout w1 @ [success_line n outp z]"
proof -
  from body have rest: "seq (fallback_count B inp n) (validate_and_export B outp) w2 = (Ok u, wb)"
    unfolding glb_try_body_def
    by (simp only: seq_eq_Ok[of "load_and_count B inp" w1 n w2, OF primary])
  with n have v: "validate_and_export B outp n w2 = (Ok u, wb)"
    by (simp add: fallback_count_def)
  from gateD[OF gate_load_and_count primary] have "stdout w2 = stdout w1" by simp
  with validate_success[OF v] show ?thesis by simp
qed

lemma primary_zero_iff:
  fixes B :: "('h, 'o) bpy_host"
  shows "(\<exists>w2. load_and_count B inp w = (Ok 0, w2)) =
     (\<exists>objects h2 h3 h4.
        libraries_load B inp (hstate w) = (Inr objects, h2) \<and>
        links_return B objects h2 = Some h3 \<and>
        object_select_all B h3 = (Inr (), h4) \<and>
        mesh_objects B h4 = [])"
proof
  assume "\<exists>w2. load_and_count B inp w = (Ok 0, w2)"
  then obtain w2 where "load_and_count B inp w = (Ok 0, w2)" by blast
  from load_and_count_Ok[OF this] show
    "\<exists>objects h2 h3 h4.
        libraries_load B inp (hstate w) = (Inr objects, h2) \<and>
        links_return B objects h2 = Some h3 \<and>
        object_select_all B h3 = (Inr (), h4) \<and>
        mesh_objects B h4 = []"
    by auto
next
  assume "\<exists>objects h2 h3 h4.
        libraries_load B inp (hstate w) = (Inr objects, h2) \<and>
        links_return B objects h2 = Some h3 \<and>
        object_select_all B h3 = (Inr (), h4) \<and>
        mesh_objects B h4 = []"
  then obtain objects h2 h3 h4 where
    "libraries_load B inp (hstate w) = (Inr objects, h2)"
    "links_return B objects h2 = Some h3"
    "object_select_all B h3 = (Inr (), h4)"
    "mesh_objects B h4 = []"
    by blast
  from load_and_count_zero[OF this] show "\<exists>w2. load_and_count B inp w = (Ok 0, w2)"
    by blast
qed

section \<open>The claims\<close>

subsection \<open>C1: an exception in the conversion sequence becomes one JSON error line\<close>

text \<open>
  Claim C1 says that an exception raised by any step of either script's conversion
  sequence, the scene reset included, is reported as exactly one line
  \<^verbatim>\<open>{"error": str(e)}\<close> followed by exit code 1. It fails in two runs. In
  \<^verbatim>\<open>export_to_glb\<close> the scene reset (line 9) stands before the \<^verbatim>\<open>try\<close>: when it raises,
  the exception reaches the top level and nothing is printed. In \<^verbatim>\<open>export_to_obj\<close> the
  \<^verbatim>\<open>finally\<close> clause calls uninitialize while the \<^verbatim>\<open>SystemExit(1)\<close> of the handler is
  pending: when uninitialize raises (here a \<^verbatim>\<open>SystemExit(0)\<close> of the host), its exception
  replaces the pending one, and the process does not end by the handler's
  \<^verbatim>\<open>sys.exit(1)\<close>.
\<close>

theorem exception_reported_counterexample:
  "Threw ReadFactorySettings (PyExc True ''RuntimeError'' ''reset failed'') \<in>
     set (trace (snd (run_blender
       (demo_bpy\<lparr>wm_read_factory_settings :=
          \<lambda>h. (Inl (PyExc True ''RuntimeError'' ''reset failed''), h)\<rparr>)
       [''blender'', ''--python'', ''script.py'', ''--'', ''in.blend'', ''out.glb''] True))) \<and>
   is_Exception (PyExc True ''RuntimeError'' ''reset failed'') \<and>
   stdout (snd (run_blender
       (demo_bpy\<lparr>wm_read_factory_settings :=
          \<lambda>h. (Inl (PyExc True ''RuntimeError'' ''reset failed''), h)\<rparr>)
       [''blender'', ''--python'', ''script.py'', ''--'', ''in.blend'', ''out.glb''] True)) = [] \<and>
   fst (run_blender
       (demo_bpy\<lparr>wm_read_factory_settings :=
          \<lambda>h. (Inl (PyExc True ''RuntimeError'' ''reset failed''), h)\<rparr>)
       [''blender'', ''--python'', ''script.py'', ''--'', ''in.blend'', ''out.glb''] True) =
     Uncaught (PyExc True ''RuntimeError'' ''reset failed'') \<and>
   run_maya
     (demo_maya\<lparr>cmds_file_open :=
                  \<lambda>p h. (Inl (PyExc True ''RuntimeError'' ''File not found: in.mb''), h),
                standalone_uninitialize :=
                  \<lambda>h. (Inl (PyExc False ''SystemExit'' ''0''), h)\<rparr>)
     [''maya_export.py'', ''in.mb'', ''out.obj''] False =
     (Uncaught (PyExc False ''SystemExit'' ''0''),
      \<lparr>hstate = False,
       trace = [Returned Initialize,
                Threw (FileOpen ''in.mb'') (PyExc True ''RuntimeError'' ''File not found: in.mb''),
                Threw Uninitialize (PyExc False ''SystemExit'' ''0'')],
       stdout = [error_line ''File not found: in.mb'']\<rparr>)"
  by (simp add: run_blender_unfold export_to_glb_unfold demo_bpy_def demo_maya_eval)

text \<open>
  C1, amended. In every run of the OBJ exporter, when a call of the conversion sequence
  of \<^verbatim>\<open>export_to_obj\<close> (any host call but the runtime's initialize and uninitialize)
  raises an exception derived from \<^verbatim>\<open>Exception\<close>, and in every run of the GLB exporter,
  when a call inside the \<^verbatim>\<open>try\<close> block of \<^verbatim>\<open>export_to_glb\<close> (any host call but the
  scene reset) does, standard output holds exactly the line \<^verbatim>\<open>{"error": str(e)}\<close>. The
  GLB exporter then ends by \<^verbatim>\<open>sys.exit(1)\<close>. The OBJ exporter calls uninitialize last and
  ends by \<^verbatim>\<open>sys.exit(1)\<close> when that call returns; when it raises, its exception is what
  reaches the top level.
\<close>

theorem exception_reported:
  "(Threw c e \<in> set (trace (snd (run_maya M argv h0))) \<and> conversion_call c \<and>
      is_Exception e \<longrightarrow>
        stdout (snd (run_maya M argv h0)) = [error_line (exc_str e)] \<and>
        call_of (last (trace (snd (run_maya M argv h0)))) = Uninitialize \<and>
        (Returned Uninitialize \<in> set (trace (snd (run_maya M argv h0))) \<longrightarrow>
           fst (run_maya M argv h0) = SysExit 1) \<and>
        (\<forall>e2. Threw Uninitialize e2 \<in> set (trace (snd (run_maya M argv h0))) \<longrightarrow>
           fst (run_maya M argv h0) = Uncaught e2)) \<and>
   (Threw c' e' \<in> set (trace (snd (run_blender B argv' h0'))) \<and> in_try_block c' \<and>
      is_Exception e' \<longrightarrow>
        stdout (snd (run_blender B argv' h0')) = [error_line (exc_str e')] \<and>
        fst (run_blender B argv' h0') = SysExit 1)"
  using maya_exception[of c e M argv h0] blender_exception[of c' e' B argv' h0']
  by blast

theorem exception_reported_witness:
  "Threw (FileOpen ''in.mb'') (PyExc True ''RuntimeError'' ''File not found: in.mb'') \<in>
     set (trace (snd (run_maya
       (demo_maya\<lparr>cmds_file_open :=
          \<lambda>p h. (Inl (PyExc True ''RuntimeError'' ''File not found: in.mb''), h)\<rparr>)
       [''maya_export.py'', ''in.mb'', ''out.obj''] False))) \<and>
   conversion_call (FileOpen ''in.mb'') \<and>
   is_Exception (PyExc True ''RuntimeError'' ''File not found: in.mb'') \<and>
   stdout (snd (run_maya
       (demo_maya\<lparr>cmds_file_open :=
          \<lambda>p h. (Inl (PyExc True ''RuntimeError'' ''File not found: in.mb''), h)\<rparr>)
       [''maya_export.py'', ''in.mb'', ''out.obj''] False)) =
     [error_line ''File not found: in.mb''] \<and>
   Returned Uninitialize \<in> set (trace (snd (run_maya
       (demo_maya\<lparr>cmds_file_open :=
          \<lambda>p h. (Inl (PyExc True ''RuntimeError'' ''File not found: in.mb''), h)\<rparr>)
       [''maya_export.py'', ''in.mb'', ''out.obj''] False))) \<and>
   fst (run_maya
       (demo_maya\<lparr>cmds_file_open :=
          \<lambda>p h. (Inl (PyExc True ''RuntimeError'' ''File not found: in.mb''), h)\<rparr>)
       [''maya_export.py'', ''in.mb'', ''out.obj''] False) = SysExit 1 \<and>
   Threw (ExportGltf ''out.glb'') (PyExc True ''RuntimeError'' ''disk full'') \<in>
     set (trace (snd (run_blender
       (demo_bpy\<lparr>export_scene_gltf :=
          \<lambda>p h. (Inl (PyExc True ''RuntimeError'' ''disk full''), h)\<rparr>)
       [''blender'', ''--python'', ''script.py'', ''--'', ''in.blend'', ''out.glb''] True))) \<and>
   in_try_block (ExportGltf ''out.glb'' :: string bpy_call) \<and>
   stdout (snd (run_blender
       (demo_bpy\<lparr>export_scene_gltf :=
          \<lambda>p h. (Inl (PyExc True ''RuntimeError'' ''disk full''), h)\<rparr>)
       [''blender'', ''--python'', ''script.py'', ''--'', ''in.blend'', ''out.glb''] True)) =
     [error_line ''disk full''] \<and>
   fst (run_blender
       (demo_bpy\<lparr>export_scene_gltf :=
          \<lambda>p h. (Inl (PyExc True ''RuntimeError'' ''disk full''), h)\<rparr>)
       [''blender'', ''--python'', ''script.py'', ''--'', ''in.blend'', ''out.glb''] True) =
     SysExit 1"
proof -
  let ?e = "PyExc True ''RuntimeError'' ''File not found: in.mb''"
  let ?M = "demo_maya\<lparr>cmds_file_open := \<lambda>p h. (Inl ?e, h)\<rparr>"
  let ?e' = "PyExc True ''RuntimeError'' ''disk full''"
  let ?B = "demo_bpy\<lparr>export_scene_gltf := \<lambda>p h. (Inl ?e', h)\<rparr>"
  let ?argv = "[''maya_export.py'', ''in.mb'', ''out.obj'']"
  let ?argv' = "[''blender'', ''--python'', ''script.py'', ''--'', ''in.blend'', ''out.glb'']"
  have a: "Threw (FileOpen ''in.mb'') ?e \<in> set (trace (snd (run_maya ?M ?argv False)))"
    by (simp add: demo_maya_eval)
  have b: "conversion_call (FileOpen ''in.mb'')" by (simp add: conversion_call_def)
  have c: "is_Exception ?e" by simp
  have a': "Threw (ExportGltf ''out.glb'') ?e' \<in> set (trace (snd (run_blender ?B ?argv' True)))"
    by (simp add: demo_bpy_eval)
  have b': "in_try_block (ExportGltf ''out.glb'' :: string bpy_call)"
    by (simp add: in_try_block_def)
  have c': "is_Exception ?e'" by simp
  note t = exception_reported[of "FileOpen ''in.mb''" ?e ?M ?argv False
              "ExportGltf ''out.glb''" ?e' ?B ?argv' True]
  have u: "Returned Uninitialize \<in> set (trace (snd (run_maya ?M ?argv False)))"
    by (simp add: demo_maya_eval)
  from t a b c have m: "stdout (snd (run_maya ?M ?argv False)) = [error_line (exc_str ?e)]"
    by blast
  from t a b c u have x: "fst (run_maya ?M ?argv False) = SysExit 1"
    by blast
  from t a' b' c' have bl: "stdout (snd (run_blender ?B ?argv' True)) = [error_line (exc_str ?e')]"
    "fst (run_blender ?B ?argv' True) = SysExit 1"
    by blast+
  from a b c a' b' m u x bl show ?thesis by simp
qed

subsection \<open>C2: the usage guard of the GLB exporter\<close>

text \<open>
  Claim C2 says that fewer than two arguments after \<^verbatim>\<open>--\<close> yield the usage line and
  exit code 1. The guard of line 74 tests \<^verbatim>\<open>len(sys.argv) < 4\<close>, and \<^verbatim>\<open>sys.argv\<close> also
  holds what precedes \<^verbatim>\<open>--\<close>: with one argument after the separator, or none, the guard
  lets the run through and \<^verbatim>\<open>args[1]\<close> (or \<^verbatim>\<open>args[0]\<close>) raises an \<^verbatim>\<open>IndexError\<close> outside
  any \<^verbatim>\<open>try\<close>: nothing is printed. The usage line appears when the separator itself is
  missing from the documented command line. No host call is made in any of the three runs.
\<close>

theorem usage_guard_misses:
  "run_blender B [''blender'', ''--python'', ''script.py'', ''--'', ''input.blend''] h0 =
     (Uncaught IndexError, \<lparr>hstate = h0, trace = [], stdout = []\<rparr>) \<and>
   run_blender B [''blender'', ''--python'', ''script.py'', ''--''] h0 =
     (Uncaught IndexError, \<lparr>hstate = h0, trace = [], stdout = []\<rparr>) \<and>
   run_blender B [''blender'', ''--python'', ''script.py''] h0 =
     (SysExit 1, \<lparr>hstate = h0, trace = [], stdout = [error_line usage_msg]\<rparr>)"
  by (simp add: run_blender_unfold)

subsection \<open>C3: the host runtime is uninitialized once\<close>

text \<open>
  Claim C3 says that every run of the OBJ exporter calls
  \<^verbatim>\<open>maya.standalone.uninitialize()\<close> exactly once on every exit path of the process. A
  run with a missing positional argument leaves through the \<^verbatim>\<open>IndexError\<close> of lines
  57--58, before \<^verbatim>\<open>export_to_obj\<close> and its \<^verbatim>\<open>finally\<close> clause are entered: uninitialize is
  never called.
\<close>

theorem uninitialize_counterexample:
  "fst (run_maya demo_maya [''maya_export.py'', ''in.mb''] False) = Uncaught IndexError \<and>
   filter (\<lambda>ev. call_of ev = Uninitialize)
     (trace (snd (run_maya demo_maya [''maya_export.py'', ''in.mb''] False))) = []"
  by (simp add: run_maya_unfold demo_maya_def)

text \<open>
  C3, amended. Every run of the OBJ exporter that reaches \<^verbatim>\<open>export_to_obj\<close> (the runtime
  initialized and both positional arguments are present) calls uninitialize exactly once,
  as its last host call, on every exit path of the function: success, the zero-mesh
  failure, and any exception.
\<close>

theorem uninitialize_once:
  assumes init: "fst (standalone_initialize M h0) = Inr ()" and args: "3 \<le> length argv"
  shows "length (filter (\<lambda>ev. call_of ev = Uninitialize) (trace (snd (run_maya M argv h0)))) = 1 \<and>
         call_of (last (trace (snd (run_maya M argv h0)))) = Uninitialize"
proof -
  obtain h where i: "standalone_initialize M h0 = (Inr (), h)"
    using init by (cases "standalone_initialize M h0") auto
  let ?w1 = "\<lparr>hstate = h, trace = [Returned Initialize], stdout = []\<rparr>"
  obtain r w' where run: "export_to_obj M (argv ! 1) (argv ! 2) ?w1 = (r, w')"
    by (cases "export_to_obj M (argv ! 1) (argv ! 2) ?w1")
  from export_to_obj_trace[OF run] obtain evs u where
    t: "trace w' = Returned Initialize # evs @ [u]" and u: "call_of u = Uninitialize" and
    c: "\<forall>ev\<in>set evs. conversion_call (call_of ev)"
    by auto
  from i args run have "snd (run_maya M argv h0) = w'"
    by (simp add: run_maya_unfold)
  with t u no_uninitialize[OF c] show ?thesis by simp
qed

theorem uninitialize_once_witness:
  "length (filter (\<lambda>ev. call_of ev = Uninitialize)
     (trace (snd (run_maya demo_maya [''maya_export.py'', ''in.mb'', ''out.obj''] False)))) = 1 \<and>
   trace (snd (run_maya demo_maya [''maya_export.py'', ''in.mb'', ''out.obj''] False)) =
     [Returned Initialize, Returned (FileOpen ''in.mb''), Returned LsMesh,
      Returned (ListRelatives ''cubeShape''), Returned (ListRelatives ''ballShape''),
      Returned (Select [''cube'']), Returned (FileExport ''out.obj''),
      Returned (PathGetsize ''out.obj''), Returned Uninitialize]"
proof -
  have i: "fst (standalone_initialize demo_maya False) = Inr ()"
    by (simp add: demo_maya_def)
  have a: "3 \<le> length [''maya_export.py'', ''in.mb'', ''out.obj'']" by simp
  have t: "trace (snd (run_maya demo_maya [''maya_export.py'', ''in.mb'', ''out.obj''] False)) =
     [Returned Initialize, Returned (FileOpen ''in.mb''), Returned LsMesh,
      Returned (ListRelatives ''cubeShape''), Returned (ListRelatives ''ballShape''),
      Returned (Select [''cube'']), Returned (FileExport ''out.obj''),
      Returned (PathGetsize ''out.obj''), Returned Uninitialize]"
    by (simp add: run_maya_def run_process_def maya_main_def export_to_obj_def try_finally_def
          try_except_def obj_try_body_def output_size_def demo_maya_def call_def print_def)
  from uninitialize_once[OF i a] t show ?thesis by simp
qed

subsection \<open>C4: no mesh on either load path\<close>

text \<open>
  Claim C4. When the scene reset returns, the library-style load path (lines 13--30) runs
  to its end with a mesh count of zero, the fallback open of the input file returns and
  the scene it opens holds no mesh-typed object, then \<^verbatim>\<open>export_to_glb\<close> prints exactly the
  line \<^verbatim>\<open>{"error": "No mesh objects found in file"}\<close>, exits with code 1, and never
  calls the export operation.
\<close>

theorem no_mesh_anywhere:
  assumes reset: "wm_read_factory_settings B h0 = (Inr (), h1)"
    and primary: "load_and_count B inp
        \<lparr>hstate = h1, trace = [Returned ReadFactorySettings], stdout = []\<rparr> = (Ok 0, w2)"
    and fb: "wm_open_mainfile B inp (hstate w2) = (Inr (), h3)"
    and none: "\<forall>ob\<in>set (scene_objects B h3). obj_type B ob \<noteq> ''MESH''"
  shows "fst (run_process (export_to_glb B inp outp) h0) = SysExit 1 \<and>
         stdout (snd (run_process (export_to_glb B inp outp) h0)) = [error_line no_mesh_msg] \<and>
         (\<forall>ev\<in>set (trace (snd (run_process (export_to_glb B inp outp) h0))).
            \<forall>p. call_of ev \<noteq> ExportGltf p)"
proof -
  let ?w1 = "\<lparr>hstate = h1, trace = [Returned ReadFactorySettings], stdout = []\<rparr>
               :: ('a, 'b bpy_call) world"
  let ?w3 = "w2\<lparr>hstate := h3, trace := trace w2 @ [Returned (OpenMainfile inp)]\<rparr>"
  from gateD[OF gate_load_and_count primary] have out2: "stdout w2 = []" by simp
  have "traced (\<lambda>c. \<forall>p. c \<noteq> ExportGltf p) (load_and_count B inp)"
    by (rule traced_load_and_count) simp_all
  from tracedD[OF this primary] obtain evs where
    evs: "trace w2 = Returned ReadFactorySettings # evs"
         "\<forall>ev\<in>set evs. \<forall>p. call_of ev \<noteq> ExportGltf p"
    by auto
  have fbc: "fallback_count B inp 0 w2 = (Ok 0, ?w3)"
    using fb none by (simp add: fallback_count_def select_meshes_none)
  have val: "validate_and_export B outp 0 ?w3 =
               (Exit 1, ?w3\<lparr>stdout := stdout ?w3 @ [error_line no_mesh_msg]\<rparr>)"
    by (simp add: validate_and_export_def sys_exit_def)
  have body: "glb_try_body B inp outp ?w1 =
               (Exit 1, ?w3\<lparr>stdout := stdout ?w3 @ [error_line no_mesh_msg]\<rparr>)"
    unfolding glb_try_body_def
    by (simp only: seq_eq_Ok[of "load_and_count B inp" ?w1 0 w2, OF primary]
          seq_eq_Ok[of "fallback_count B inp 0" w2 0 ?w3, OF fbc] val)
  have run: "export_to_glb B inp outp \<lparr>hstate = h0, trace = [], stdout = []\<rparr> =
               (Exit 1, ?w3\<lparr>stdout := stdout ?w3 @ [error_line no_mesh_msg]\<rparr>)"
    using reset body by (simp add: export_to_glb_unfold)
  show ?thesis
    unfolding run_process_export_to_glb run using out2 evs by simp
qed

theorem no_mesh_anywhere_witness:
  "wm_read_factory_settings (demo_bpy\<lparr>obj_type := \<lambda>ob. ''EMPTY''\<rparr>) True = (Inr (), False) \<and>
   load_and_count (demo_bpy\<lparr>obj_type := \<lambda>ob. ''EMPTY''\<rparr>) ''in.blend''
      \<lparr>hstate = False, trace = [Returned ReadFactorySettings], stdout = []\<rparr> =
     (Ok 0, \<lparr>hstate = False,
             trace = [Returned ReadFactorySettings, Returned (LibrariesLoad ''in.blend''),
                      Returned (ObjectsLink ''Lamp''), Returned SelectAllDeselect],
             stdout = []\<rparr>) \<and>
   fst (run_process (export_to_glb (demo_bpy\<lparr>obj_type := \<lambda>ob. ''EMPTY''\<rparr>)
          ''in.blend'' ''out.glb'') True) = SysExit 1 \<and>
   stdout (snd (run_process (export_to_glb (demo_bpy\<lparr>obj_type := \<lambda>ob. ''EMPTY''\<rparr>)
          ''in.blend'' ''out.glb'') True)) = [error_line no_mesh_msg]"
proof -
  let ?B = "demo_bpy\<lparr>obj_type := \<lambda>ob. ''EMPTY''\<rparr>"
  let ?w2 = "\<lparr>hstate = False,
             trace = [Returned ReadFactorySettings, Returned (LibrariesLoad ''in.blend''),
                      Returned (ObjectsLink ''Lamp''), Returned SelectAllDeselect],
             stdout = []\<rparr> :: (bool, string bpy_call) world"
  have a: "wm_read_factory_settings ?B True = (Inr (), False)"
    by (simp add: demo_bpy_def)
  have b: "load_and_count ?B ''in.blend''
      \<lparr>hstate = False, trace = [Returned ReadFactorySettings], stdout = []\<rparr> = (Ok 0, ?w2)"
    by (simp add: load_and_count_def demo_bpy_def return_def)
  have c: "wm_open_mainfile ?B ''in.blend'' (hstate ?w2) = (Inr (), True)"
    by (simp add: demo_bpy_def)
  have d: "\<forall>ob\<in>set (scene_objects ?B True). obj_type ?B ob \<noteq> ''MESH''"
    by simp
  from no_mesh_anywhere[OF a b c d, of "''out.glb''"] a b show ?thesis
    by (intro conjI) simp_all
qed

subsection \<open>C5: the standard-output protocol\<close>

text \<open>
  Claim C5 says that every run of either script writes exactly one status line. A run of
  the OBJ exporter without its arguments writes none: it dies of an \<^verbatim>\<open>IndexError\<close>.
\<close>

theorem status_line_counterexample:
  "fst (run_maya demo_maya [''maya_export.py''] False) = Uncaught IndexError \<and>
   stdout (snd (run_maya demo_maya [''maya_export.py''] False)) = []"
  by (simp add: run_maya_unfold demo_maya_def)

text \<open>
  C5, amended. Every run of either script that runs to completion has written exactly one
  line, the prefix \<^verbatim>\<open>EXPORT_RESULT:\<close> followed by the object with the fields success
  (true), meshCount (integer), outputPath (string) and fileSize (integer); every run that
  ends by \<^verbatim>\<open>sys.exit\<close> exits with code 1 and has written exactly one line, a bare object
  \<^verbatim>\<open>{"error": message}\<close>. A run that dies of an uncaught exception has written at most one
  status line, and none in the GLB exporter.
\<close>

theorem status_line_protocol:
  "follows_protocol (run_blender B argv h0) \<and>
   follows_protocol (run_maya M argv' h0') \<and>
   (\<forall>e. fst (run_blender B argv h0) = Uncaught e \<longrightarrow>
        stdout (snd (run_blender B argv h0)) = [])"
proof (intro conjI)
  show "follows_protocol (run_blender B argv h0)"
    using blender_shapes[of B argv h0] unfolding follows_protocol_def by auto
  show "follows_protocol (run_maya M argv' h0')"
    using maya_shapes[of M argv' h0'] unfolding follows_protocol_def by auto
  show "\<forall>e. fst (run_blender B argv h0) = Uncaught e \<longrightarrow>
        stdout (snd (run_blender B argv h0)) = []"
    using blender_shapes[of B argv h0] by auto
qed

theorem status_line_protocol_witness:
  "follows_protocol (run_blender demo_bpy
      [''blender'', ''--python'', ''script.py'', ''--'', ''in.blend'', ''out.glb''] True) \<and>
   run_blender demo_bpy
      [''blender'', ''--python'', ''script.py'', ''--'', ''in.blend'', ''out.glb''] True =
     (Finished,
      \<lparr>hstate = True,
       trace = [Returned ReadFactorySettings, Returned (LibrariesLoad ''in.blend''),
                Returned (ObjectsLink ''Lamp''), Returned SelectAllDeselect,
                Returned (OpenMainfile ''in.blend''), Returned (SelectSet ''Cube''),
                Returned (SelectSet ''Ball''), Returned TransformApply,
                Returned (ExportGltf ''out.glb''), Returned (GetSize ''out.glb'')],
       stdout = [success_line 2 ''out.glb'' 4096]\<rparr>) \<and>
   follows_protocol (run_maya demo_maya [''maya_export.py'', ''in.mb'', ''out.obj''] False) \<and>
   stdout (snd (run_maya demo_maya [''maya_export.py'', ''in.mb'', ''out.obj''] False)) =
     [success_line 2 ''out.obj'' 2048] \<and>
   fst (run_blender demo_bpy [''blender'', ''--python'', ''script.py'', ''--''] True) =
     Uncaught IndexError \<and>
   stdout (snd (run_blender demo_bpy [''blender'', ''--python'', ''script.py'', ''--''] True)) = []"
proof -
  have a: "run_blender demo_bpy
      [''blender'', ''--python'', ''script.py'', ''--'', ''in.blend'', ''out.glb''] True =
     (Finished,
      \<lparr>hstate = True,
       trace = [Returned ReadFactorySettings, Returned (LibrariesLoad ''in.blend''),
                Returned (ObjectsLink ''Lamp''), Returned SelectAllDeselect,
                Returned (OpenMainfile ''in.blend''), Returned (SelectSet ''Cube''),
                Returned (SelectSet ''Ball''), Returned TransformApply,
                Returned (ExportGltf ''out.glb''), Returned (GetSize ''out.glb'')],
       stdout = [success_line 2 ''out.glb'' 4096]\<rparr>)"
    by (simp add: demo_bpy_eval)
  have b: "stdout (snd (run_maya demo_maya [''maya_export.py'', ''in.mb'', ''out.obj''] False)) =
     [success_line 2 ''out.obj'' 2048]"
    by (simp add: demo_maya_eval)
  have c: "fst (run_blender demo_bpy [''blender'', ''--python'', ''script.py'', ''--''] True) =
     Uncaught IndexError"
    by (simp add: run_blender_unfold)
  note p = status_line_protocol[of demo_bpy
      "[''blender'', ''--python'', ''script.py'', ''--'', ''in.blend'', ''out.glb'']" True
      demo_maya "[''maya_export.py'', ''in.mb'', ''out.obj'']" False]
  note q = status_line_protocol[of demo_bpy
      "[''blender'', ''--python'', ''script.py'', ''--'']" True
      demo_maya "[''maya_export.py'', ''in.mb'', ''out.obj'']" False]
  from q c have d:
    "stdout (snd (run_blender demo_bpy [''blender'', ''--python'', ''script.py'', ''--''] True)) = []"
    by blast
  from p a b c d show ?thesis by (intro conjI) blast+
qed

subsection \<open>C6: the fallback full-file open\<close>

text \<open>
  Claim C6 says that \<^verbatim>\<open>export_to_glb\<close> opens the input file as the main document if and
  only if the library-style load linked zero mesh-typed objects into the scene. The
  fallback of line 34 is reached only when every call before it returned: here the load
  and the linking return and leave a scene without a mesh, the deselect call of line 25
  raises, and the run reports that exception without any fallback open.
\<close>

theorem fallback_iff_no_mesh_counterexample:
  "libraries_load
     (demo_bpy\<lparr>object_select_all :=
        \<lambda>h. (Inl (PyExc True ''RuntimeError'' ''select_all.poll() failed''), h)\<rparr>)
     ''in.blend'' False = (Inr [Some ''Lamp'', None], False) \<and>
   links_return
     (demo_bpy\<lparr>object_select_all :=
        \<lambda>h. (Inl (PyExc True ''RuntimeError'' ''select_all.poll() failed''), h)\<rparr>)
     [Some ''Lamp'', None] False = Some False \<and>
   mesh_objects
     (demo_bpy\<lparr>object_select_all :=
        \<lambda>h. (Inl (PyExc True ''RuntimeError'' ''select_all.poll() failed''), h)\<rparr>)
     False = [] \<and>
   run_process (export_to_glb
     (demo_bpy\<lparr>object_select_all :=
        \<lambda>h. (Inl (PyExc True ''RuntimeError'' ''select_all.poll() failed''), h)\<rparr>)
     ''in.blend'' ''out.glb'') True =
     (SysExit 1,
      \<lparr>hstate = False,
       trace = [Returned ReadFactorySettings, Returned (LibrariesLoad ''in.blend''),
                Returned (ObjectsLink ''Lamp''),
                Threw SelectAllDeselect
                  (PyExc True ''RuntimeError'' ''select_all.poll() failed'')],
       stdout = [error_line ''select_all.poll() failed'']\<rparr>)"
  by (simp add: run_process_export_to_glb demo_bpy_eval mesh_objects_def)

text \<open>
  C6, amended. \<^verbatim>\<open>export_to_glb\<close> calls \<^verbatim>\<open>open_mainfile\<close> on the input path if and only if
  the scene reset, the library-style load, the linking of every loaded object and the
  deselect call all return and the scene then holds zero mesh-typed objects. In that case,
  when the open returns, every success line of the run reports as meshCount the number of
  mesh-typed objects of the newly opened scene; when the scene held meshes after the
  library-style load, every success line reports their number.
\<close>

theorem fallback_iff_no_mesh:
  fixes B :: "('h, 'o) bpy_host"
  shows
  "((\<exists>ev\<in>set (trace (snd (run_process (export_to_glb B inp outp) h0))).
       call_of ev = OpenMainfile inp) =
    (\<exists>h1 objects h2 h3 h4.
       wm_read_factory_settings B h0 = (Inr (), h1) \<and>
       libraries_load B inp h1 = (Inr objects, h2) \<and>
       links_return B objects h2 = Some h3 \<and>
       object_select_all B h3 = (Inr (), h4) \<and>
       mesh_objects B h4 = [])) \<and>
   (\<forall>h1 objects h2 h3 h4 h5 l.
      wm_read_factory_settings B h0 = (Inr (), h1) \<and>
      libraries_load B inp h1 = (Inr objects, h2) \<and>
      links_return B objects h2 = Some h3 \<and>
      object_select_all B h3 = (Inr (), h4) \<and>
      mesh_objects B h4 = [] \<and>
      wm_open_mainfile B inp h4 = (Inr (), h5) \<and>
      l \<in> set (stdout (snd (run_process (export_to_glb B inp outp) h0))) \<and>
      is_success_line l \<longrightarrow>
        (\<exists>z. l = success_line (int (length (mesh_objects B h5))) outp z)) \<and>
   (\<forall>h1 objects h2 h3 h4 l.
      wm_read_factory_settings B h0 = (Inr (), h1) \<and>
      libraries_load B inp h1 = (Inr objects, h2) \<and>
      links_return B objects h2 = Some h3 \<and>
      object_select_all B h3 = (Inr (), h4) \<and>
      mesh_objects B h4 \<noteq> [] \<and>
      l \<in> set (stdout (snd (run_process (export_to_glb B inp outp) h0))) \<and>
      is_success_line l \<longrightarrow>
        (\<exists>z. l = success_line (int (length (mesh_objects B h4))) outp z))"
proof (intro conjI allI impI)
  obtain x h1 where r: "wm_read_factory_settings B h0 = (x, h1)"
    by (cases "wm_read_factory_settings B h0")
  show "(\<exists>ev\<in>set (trace (snd (run_process (export_to_glb B inp outp) h0))).
       call_of ev = OpenMainfile inp) =
    (\<exists>h1 objects h2 h3 h4.
       wm_read_factory_settings B h0 = (Inr (), h1) \<and>
       libraries_load B inp h1 = (Inr objects, h2) \<and>
       links_return B objects h2 = Some h3 \<and>
       object_select_all B h3 = (Inr (), h4) \<and>
       mesh_objects B h4 = [])"
  proof (cases x)
    case (Inl e)
    with r show ?thesis
      by (simp add: run_process_export_to_glb export_to_glb_unfold)
  next
    case (Inr u)
    let ?w1 = "\<lparr>hstate = h1, trace = [Returned ReadFactorySettings], stdout = []\<rparr>
                 :: ('h, 'o bpy_call) world"
    obtain r1 w2 where l: "load_and_count B inp ?w1 = (r1, w2)"
      by (cases "load_and_count B inp ?w1")
    obtain rb wb where b: "glb_try_body B inp outp ?w1 = (rb, wb)"
      by (cases "glb_try_body B inp outp ?w1")
    have base: "\<forall>ev\<in>set (trace ?w1). call_of ev \<noteq> OpenMainfile inp" by simp
    have "trace (snd (run_process (export_to_glb B inp outp) h0)) = trace wb"
      using r Inr b by (simp add: run_process_export_to_glb export_to_glb_unfold)
    with glb_body_opens_iff[OF l b base]
    have "(\<exists>ev\<in>set (trace (snd (run_process (export_to_glb B inp outp) h0))).
             call_of ev = OpenMainfile inp) = (r1 = Ok 0)"
      by simp
    also have "(r1 = Ok 0) = (\<exists>w2. load_and_count B inp ?w1 = (Ok 0, w2))"
      using l by auto
    also have "\<dots> =
      (\<exists>objects h2 h3 h4.
         libraries_load B inp (hstate ?w1) = (Inr objects, h2) \<and>
         links_return B objects h2 = Some h3 \<and>
         object_select_all B h3 = (Inr (), h4) \<and>
         mesh_objects B h4 = [])"
      by (rule primary_zero_iff)
    also have "\<dots> =
      (\<exists>h1 objects h2 h3 h4.
         wm_read_factory_settings B h0 = (Inr (), h1) \<and>
         libraries_load B inp h1 = (Inr objects, h2) \<and>
         links_return B objects h2 = Some h3 \<and>
         object_select_all B h3 = (Inr (), h4) \<and>
         mesh_objects B h4 = [])"
      using r Inr by simp
    finally show ?thesis .
  qed
next
  fix h1 objects h2 h3 h4 h5 l
  assume h: "wm_read_factory_settings B h0 = (Inr (), h1) \<and>
      libraries_load B inp h1 = (Inr objects, h2) \<and>
      links_return B objects h2 = Some h3 \<and>
      object_select_all B h3 = (Inr (), h4) \<and>
      mesh_objects B h4 = [] \<and>
      wm_open_mainfile B inp h4 = (Inr (), h5) \<and>
      l \<in> set (stdout (snd (run_process (export_to_glb B inp outp) h0))) \<and>
      is_success_line l"
  let ?w1 = "\<lparr>hstate = h1, trace = [Returned ReadFactorySettings], stdout = []\<rparr>
               :: ('h, 'o bpy_call) world"
  from h have r: "wm_read_factory_settings B h0 = (Inr (), h1)"
    and ld: "libraries_load B inp (hstate ?w1) = (Inr objects, h2)"
    and lr: "links_return B objects h2 = Some h3"
    and d: "object_select_all B h3 = (Inr (), h4)"
    and none: "mesh_objects B h4 = []"
    and fb: "wm_open_mainfile B inp h4 = (Inr (), h5)"
    and l: "l \<in> set (stdout (snd (run_process (export_to_glb B inp outp) h0)))"
    and s: "is_success_line l"
    by simp_all
  from load_and_count_zero[OF ld lr d none] obtain w2 where
    p: "load_and_count B inp ?w1 = (Ok 0, w2)" and h4: "hstate w2 = h4" by blast
  from fb h4 have fb': "wm_open_mainfile B inp (hstate w2) = (Inr (), h5)" by simp
  obtain rb wb where b: "glb_try_body B inp outp ?w1 = (rb, wb)"
    by (cases "glb_try_body B inp outp ?w1")
  have out: "stdout (snd (run_process (export_to_glb B inp outp) h0)) =
               stdout wb @ handler_output rb"
    using r b by (simp add: run_process_export_to_glb export_to_glb_unfold)
  note rep = reportsD[OF reports_glb_try_body b]
  show "\<exists>z. l = success_line (int (length (mesh_objects B h5))) outp z"
  proof (cases rb)
    case (Ok u)
    with b have "glb_try_body B inp outp ?w1 = (Ok u, wb)" by simp
    from glb_recount[OF p fb' this] obtain z where
      "stdout wb = [success_line (int (length (mesh_objects B h5))) outp z]"
      by (auto simp: mesh_objects_def)
    with l out Ok show ?thesis by auto
  next
    case (Raise e)
    with rep l s out show ?thesis by (auto split: if_splits)
  next
    case (Exit k)
    with rep l s out show ?thesis by auto
  qed
next
  fix h1 objects h2 h3 h4 l
  assume h: "wm_read_factory_settings B h0 = (Inr (), h1) \<and>
      libraries_load B inp h1 = (Inr objects, h2) \<and>
      links_return B objects h2 = Some h3 \<and>
      object_select_all B h3 = (Inr (), h4) \<and>
      mesh_objects B h4 \<noteq> [] \<and>
      l \<in> set (stdout (snd (run_process (export_to_glb B inp outp) h0))) \<and>
      is_success_line l"
  let ?w1 = "\<lparr>hstate = h1, trace = [Returned ReadFactorySettings], stdout = []\<rparr>
               :: ('h, 'o bpy_call) world"
  from h have r: "wm_read_factory_settings B h0 = (Inr (), h1)"
    and ld: "libraries_load B inp h1 = (Inr objects, h2)"
    and lr: "links_return B objects h2 = Some h3"
    and d: "object_select_all B h3 = (Inr (), h4)"
    and some: "mesh_objects B h4 \<noteq> []"
    and l: "l \<in> set (stdout (snd (run_process (export_to_glb B inp outp) h0)))"
    and s: "is_success_line l"
    by simp_all
  obtain rb wb where b: "glb_try_body B inp outp ?w1 = (rb, wb)"
    by (cases "glb_try_body B inp outp ?w1")
  have out: "stdout (snd (run_process (export_to_glb B inp outp) h0)) =
               stdout wb @ handler_output rb"
    using r b by (simp add: run_process_export_to_glb export_to_glb_unfold)
  note rep = reportsD[OF reports_glb_try_body b]
  show "\<exists>z. l = success_line (int (length (mesh_objects B h4))) outp z"
  proof (cases rb)
    case (Ok u)
    with b have b': "glb_try_body B inp outp ?w1 = (Ok u, wb)" by simp
    then have "seq (load_and_count B inp) (\<lambda>mesh_count.
       seq (fallback_count B inp mesh_count) (\<lambda>mesh_count.
       validate_and_export B outp mesh_count)) ?w1 = (Ok u, wb)"
      by (simp only: glb_try_body_def)
    from seq_Ok_inv[OF this] obtain n w2 where
      p: "load_and_count B inp ?w1 = (Ok n, w2)" by blast
    from load_and_count_Ok[OF p] ld lr d
    have n: "n = int (length (mesh_objects B h4))" by auto
    with some have "n \<noteq> 0" by simp
    from glb_primary_count[OF p this b'] n obtain z where
      "stdout wb = [success_line (int (length (mesh_objects B h4))) outp z]"
      by auto
    with l out Ok show ?thesis by auto
  next
    case (Raise e)
    with rep l s out show ?thesis by (auto split: if_splits)
  next
    case (Exit k)
    with rep l s out show ?thesis by auto
  qed
qed

theorem fallback_iff_no_mesh_witness:
  "(\<exists>ev\<in>set (trace (snd (run_process (export_to_glb demo_bpy ''in.blend'' ''out.glb'') True))).
       call_of ev = OpenMainfile ''in.blend'') \<and>
   wm_read_factory_settings demo_bpy True = (Inr (), False) \<and>
   libraries_load demo_bpy ''in.blend'' False = (Inr [Some ''Lamp'', None], False) \<and>
   links_return demo_bpy [Some ''Lamp'', None] False = Some False \<and>
   object_select_all demo_bpy False = (Inr (), False) \<and>
   mesh_objects demo_bpy False = [] \<and>
   wm_open_mainfile demo_bpy ''in.blend'' False = (Inr (), True) \<and>
   mesh_objects demo_bpy True = [''Cube'', ''Ball''] \<and>
   success_line 2 ''out.glb'' 4096 \<in>
     set (stdout (snd (run_process (export_to_glb demo_bpy ''in.blend'' ''out.glb'') True))) \<and>
   is_success_line (success_line 2 ''out.glb'' 4096) \<and>
   (\<exists>z. success_line 2 ''out.glb'' 4096 =
      success_line (int (length (mesh_objects demo_bpy True))) ''out.glb'' z) \<and>
   mesh_objects (demo_bpy\<lparr>scene_objects := \<lambda>h. [''Cube'', ''Lamp'']\<rparr>) False = [''Cube''] \<and>
   \<not> (\<exists>ev\<in>set (trace (snd (run_process
         (export_to_glb (demo_bpy\<lparr>scene_objects := \<lambda>h. [''Cube'', ''Lamp'']\<rparr>)
            ''in.blend'' ''out.glb'') True))).
       call_of ev = OpenMainfile ''in.blend'') \<and>
   success_line 1 ''out.glb'' 4096 \<in>
     set (stdout (snd (run_process
         (export_to_glb (demo_bpy\<lparr>scene_objects := \<lambda>h. [''Cube'', ''Lamp'']\<rparr>)
            ''in.blend'' ''out.glb'') True))) \<and>
   (\<exists>z. success_line 1 ''out.glb'' 4096 =
      success_line
        (int (length (mesh_objects (demo_bpy\<lparr>scene_objects := \<lambda>h. [''Cube'', ''Lamp'']\<rparr>)
           False))) ''out.glb'' z)"
proof -
  let ?B = "demo_bpy\<lparr>scene_objects := \<lambda>h. [''Cube'', ''Lamp'']\<rparr>"
  have a: "wm_read_factory_settings demo_bpy True = (Inr (), False)"
    by (simp add: demo_bpy_def)
  have b: "libraries_load demo_bpy ''in.blend'' False = (Inr [Some ''Lamp'', None], False)"
    by (simp add: demo_bpy_def)
  have c: "links_return demo_bpy [Some ''Lamp'', None] False = Some False"
    by (simp add: demo_bpy_def)
  have d: "object_select_all demo_bpy False = (Inr (), False)"
    by (simp add: demo_bpy_def)
  have e: "mesh_objects demo_bpy False = []"
    by (simp add: demo_bpy_def mesh_objects_def)
  have f: "wm_open_mainfile demo_bpy ''in.blend'' False = (Inr (), True)"
    by (simp add: demo_bpy_def)
  have g: "mesh_objects demo_bpy True = [''Cube'', ''Ball'']"
    by (simp add: demo_bpy_def mesh_objects_def)
  have i: "success_line 2 ''out.glb'' 4096 \<in>
     set (stdout (snd (run_process (export_to_glb demo_bpy ''in.blend'' ''out.glb'') True)))"
    by (simp add: run_process_export_to_glb demo_bpy_eval)
  have j: "is_success_line (success_line 2 ''out.glb'' 4096)" by simp
  note t = fallback_iff_no_mesh[of demo_bpy "''in.blend''" "''out.glb''" True]
  from t a b c d e have k:
    "\<exists>ev\<in>set (trace (snd (run_process (export_to_glb demo_bpy ''in.blend'' ''out.glb'') True))).
       call_of ev = OpenMainfile ''in.blend''"
    by blast
  from t a b c d e f i j have m: "\<exists>z. success_line 2 ''out.glb'' 4096 =
      success_line (int (length (mesh_objects demo_bpy True))) ''out.glb'' z"
    by blast
  have a': "wm_read_factory_settings ?B True = (Inr (), False)"
    by (simp add: demo_bpy_def)
  have b': "libraries_load ?B ''in.blend'' False = (Inr [Some ''Lamp'', None], False)"
    by (simp add: demo_bpy_def)
  have c': "links_return ?B [Some ''Lamp'', None] False = Some False"
    by (simp add: demo_bpy_def)
  have d': "object_select_all ?B False = (Inr (), False)"
    by (simp add: demo_bpy_def)
  have e': "mesh_objects ?B False = [''Cube'']"
    by (simp add: demo_bpy_def mesh_objects_def)
  have i': "success_line 1 ''out.glb'' 4096 \<in>
     set (stdout (snd (run_process (export_to_glb ?B ''in.blend'' ''out.glb'') True)))"
    by (simp add: run_process_export_to_glb demo_bpy_eval)
  have j': "is_success_line (success_line 1 ''out.glb'' 4096)" by simp
  note t' = fallback_iff_no_mesh[of ?B "''in.blend''" "''out.glb''" True]
  have ne: "mesh_objects ?B False \<noteq> []" using e' by simp
  have "\<not> (\<exists>h1 objects h2 h3 h4.
       wm_read_factory_settings ?B True = (Inr (), h1) \<and>
       libraries_load ?B ''in.blend'' h1 = (Inr objects, h2) \<and>
       links_return ?B objects h2 = Some h3 \<and>
       object_select_all ?B h3 = (Inr (), h4) \<and>
       mesh_objects ?B h4 = [])"
    by (simp add: demo_bpy_def mesh_objects_def)
  with t' have k': "\<not> (\<exists>ev\<in>set (trace (snd (run_process
         (export_to_glb ?B ''in.blend'' ''out.glb'') True))).
       call_of ev = OpenMainfile ''in.blend'')"
    by blast
  from t' a' b' c' d' ne i' j' have m': "\<exists>z. success_line 1 ''out.glb'' 4096 =
      success_line (int (length (mesh_objects ?B False))) ''out.glb'' z"
    by blast
  from k a b c d e f g i j m e' k' i' m' show ?thesis by (intro conjI)
qed

subsection \<open>C7: what a successful run of the OBJ exporter reports\<close>

text \<open>
  Claim C7. Every success line printed by a run of \<^verbatim>\<open>export_to_obj\<close> is the only line of
  the run; its meshCount is the length of the non-empty list that \<^verbatim>\<open>cmds.ls(type='mesh')\<close>
  returned for the opened file, its outputPath is the given output path, and its fileSize
  is the size of the output file in the state the export call left, or 0 when the file
  does not exist there.
\<close>

theorem obj_success_report:
  assumes "l \<in> set (stdout (snd (run_process (export_to_obj M inp outp) h0)))"
    and "is_success_line l"
  shows "\<exists>h1 ms hs hx z.
           cmds_file_open M inp h0 = (Inr (), h1) \<and>
           cmds_ls_mesh M h1 = Inr (Some ms) \<and> ms \<noteq> [] \<and>
           cmds_file_export M outp hs = (Inr (), hx) \<and>
           (if maya_path_exists M outp hx then maya_getsize M outp hx = Inr z else z = 0) \<and>
           l = success_line (int (length ms)) outp z \<and>
           stdout (snd (run_process (export_to_obj M inp outp) h0)) = [l]"
proof -
  let ?w0 = "\<lparr>hstate = h0, trace = [], stdout = []\<rparr> :: ('a, maya_call) world"
  obtain r w' where run: "export_to_obj M inp outp ?w0 = (r, w')"
    by (cases "export_to_obj M inp outp ?w0")
  with assms have l: "l \<in> set (stdout w')" by (simp add: run_process_export_to_obj)
  have s: "stdout (snd (run_process (export_to_obj M inp outp) h0)) = stdout w'"
    using run by (simp add: run_process_export_to_obj)
  have "stdout ?w0 = []" by simp
  from export_to_obj_success_line[OF run this l assms(2)] obtain h1 ms hs hx z where
    d: "cmds_file_open M inp (hstate ?w0) = (Inr (), h1)"
       "cmds_ls_mesh M h1 = Inr (Some ms)" "ms \<noteq> []"
       "cmds_file_export M outp hs = (Inr (), hx)"
       "if maya_path_exists M outp hx then maya_getsize M outp hx = Inr z else z = 0"
       "l = success_line (int (length ms)) outp z" "stdout w' = [l]"
    by blast
  from d(1) have o: "cmds_file_open M inp h0 = (Inr (), h1)" by simp
  from o d(2-7) show ?thesis unfolding s by blast
qed

theorem obj_success_report_witness:
  "success_line 2 ''out.obj'' 2048 \<in>
     set (stdout (snd (run_process (export_to_obj demo_maya ''in.mb'' ''out.obj'') False))) \<and>
   is_success_line (success_line 2 ''out.obj'' 2048) \<and>
   (\<exists>h1 ms hs hx z.
      cmds_file_open demo_maya ''in.mb'' False = (Inr (), h1) \<and>
      cmds_ls_mesh demo_maya h1 = Inr (Some ms) \<and> ms \<noteq> [] \<and>
      cmds_file_export demo_maya ''out.obj'' hs = (Inr (), hx) \<and>
      (if maya_path_exists demo_maya ''out.obj'' hx
       then maya_getsize demo_maya ''out.obj'' hx = Inr z else z = 0) \<and>
      success_line 2 ''out.obj'' 2048 = success_line (int (length ms)) ''out.obj'' z \<and>
      stdout (snd (run_process (export_to_obj demo_maya ''in.mb'' ''out.obj'') False)) =
        [success_line 2 ''out.obj'' 2048])"
proof -
  have a: "success_line 2 ''out.obj'' 2048 \<in>
     set (stdout (snd (run_process (export_to_obj demo_maya ''in.mb'' ''out.obj'') False)))"
    by (simp add: demo_maya_eval)
  have b: "is_success_line (success_line 2 ''out.obj'' 2048)" by simp
  from a b obj_success_report[OF a b] show ?thesis by (simp only: simp_thms)
qed

subsection \<open>C8: the OBJ exporter without its arguments\<close>

text \<open>
  Claim C8. The first host call of every run of the OBJ exporter is
  \<^verbatim>\<open>maya.standalone.initialize()\<close>, before \<^verbatim>\<open>sys.argv\<close> is read. With fewer than two
  positional arguments nothing is printed and uninitialize is never called; when
  initialize returned, the run ends in an uncaught \<^verbatim>\<open>IndexError\<close> with initialize as its only
  host call.
\<close>

theorem argv_crash:
  "trace (snd (run_maya M argv h0)) \<noteq> [] \<and>
   call_of (hd (trace (snd (run_maya M argv h0)))) = Initialize \<and>
   (length argv < 3 \<longrightarrow>
      stdout (snd (run_maya M argv h0)) = [] \<and>
      (\<forall>ev\<in>set (trace (snd (run_maya M argv h0))). call_of ev \<noteq> Uninitialize) \<and>
      (fst (standalone_initialize M h0) = Inr () \<longrightarrow>
         run_maya M argv h0 =
           (Uncaught IndexError,
            \<lparr>hstate = snd (standalone_initialize M h0), trace = [Returned Initialize],
             stdout = []\<rparr>)))"
proof -
  obtain x h where i: "standalone_initialize M h0 = (x, h)"
    by (cases "standalone_initialize M h0")
  show ?thesis
  proof (cases x)
    case (Inl e)
    with i show ?thesis by (simp add: run_maya_unfold)
  next
    case (Inr u)
    let ?w1 = "\<lparr>hstate = h, trace = [Returned Initialize], stdout = []\<rparr>"
    show ?thesis
    proof (cases "length argv < 3")
      case True
      with i Inr show ?thesis by (simp add: run_maya_unfold)
    next
      case False
      obtain r w' where run: "export_to_obj M (argv ! 1) (argv ! 2) ?w1 = (r, w')"
        by (cases "export_to_obj M (argv ! 1) (argv ! 2) ?w1")
      from export_to_obj_trace[OF run] obtain evs u where
        "trace w' = Returned Initialize # evs @ [u]" by auto
      with i Inr False run show ?thesis by (simp add: run_maya_unfold)
    qed
  qed
qed

theorem argv_crash_witness:
  "length [''maya_export.py'', ''in.mb''] < 3 \<and>
   fst (standalone_initialize demo_maya False) = Inr () \<and>
   run_maya demo_maya [''maya_export.py'', ''in.mb''] False =
     (Uncaught IndexError, \<lparr>hstate = False, trace = [Returned Initialize], stdout = []\<rparr>)"
  using argv_crash[of demo_maya "[''maya_export.py'', ''in.mb'']" False]
  by (simp add: demo_maya_def)

subsection \<open>C9: meshCount does not depend on the parents\<close>

text \<open>
  Claim C9. Let the file open return and \<^verbatim>\<open>cmds.ls(type='mesh')\<close> return the list
  \<open>ms\<close>. Whatever \<^verbatim>\<open>cmds.listRelatives\<close> answers (no parent, a parent shared by several
  shapes, a parent listed several times), every success line of the run reports
  \<open>length ms\<close> as meshCount.
\<close>

theorem mesh_count_independent:
  assumes "cmds_file_open M inp h0 = (Inr (), h1)"
    and "cmds_ls_mesh M h1 = Inr (Some ms)"
    and "l \<in> set (stdout (snd (run_process
            (export_to_obj (M\<lparr>cmds_listRelatives := lr\<rparr>) inp outp) h0)))"
    and "is_success_line l"
  shows "\<exists>z. l = success_line (int (length ms)) outp z"
proof -
  let ?M = "M\<lparr>cmds_listRelatives := lr\<rparr>"
  let ?w0 = "\<lparr>hstate = h0, trace = [], stdout = []\<rparr> :: ('a, maya_call) world"
  obtain r w' where run: "export_to_obj ?M inp outp ?w0 = (r, w')"
    by (cases "export_to_obj ?M inp outp ?w0")
  with assms(3) have l: "l \<in> set (stdout w')" by (simp add: run_process_export_to_obj)
  have "stdout ?w0 = []" by simp
  from export_to_obj_success_line[OF run this l assms(4)] obtain h1' ms' z where
    d: "cmds_file_open ?M inp (hstate ?w0) = (Inr (), h1')"
       "cmds_ls_mesh ?M h1' = Inr (Some ms')"
       "l = success_line (int (length ms')) outp z"
    by blast
  from d(1) assms(1) have "h1' = h1" by simp
  with d(2) assms(2) have "ms' = ms" by simp
  with d(3) show ?thesis by blast
qed

theorem mesh_count_independent_witness:
  "cmds_file_open demo_maya ''in.mb'' False = (Inr (), False) \<and>
   cmds_ls_mesh demo_maya False = Inr (Some [''cubeShape'', ''ballShape'']) \<and>
   success_line 2 ''out.obj'' 2048 \<in> set (stdout (snd (run_process
      (export_to_obj (demo_maya\<lparr>cmds_listRelatives := \<lambda>m h. Inr (Some [''grp''])\<rparr>)
         ''in.mb'' ''out.obj'') False))) \<and>
   is_success_line (success_line 2 ''out.obj'' 2048) \<and>
   (\<exists>z. success_line 2 ''out.obj'' 2048 =
          success_line (int (length [''cubeShape'', ''ballShape''])) ''out.obj'' z)"
proof -
  have a: "cmds_file_open demo_maya ''in.mb'' False = (Inr (), False)"
    by (simp add: demo_maya_def)
  have b: "cmds_ls_mesh demo_maya False = Inr (Some [''cubeShape'', ''ballShape''])"
    by (simp add: demo_maya_def)
  have c: "success_line 2 ''out.obj'' 2048 \<in> set (stdout (snd (run_process
      (export_to_obj (demo_maya\<lparr>cmds_listRelatives := \<lambda>m h. Inr (Some [''grp''])\<rparr>)
         ''in.mb'' ''out.obj'') False)))"
    by (simp add: demo_maya_eval)
  have d: "is_success_line (success_line 2 ''out.obj'' 2048)" by simp
  from a b c d mesh_count_independent[OF a b c d] show ?thesis by (simp only: simp_thms)
qed

subsection \<open>C10: mesh shapes without a transform parent\<close>

text \<open>
  Claim C10. When the opened scene has at least one mesh shape and
  \<^verbatim>\<open>cmds.listRelatives\<close> finds no parent for any of them, \<^verbatim>\<open>export_to_obj\<close> makes no
  \<^verbatim>\<open>cmds.select\<close> call at all, and right after the parent queries it calls the OBJ export
  (always with \<^verbatim>\<open>exportSelected=True\<close>) on the host state that the file open left.
\<close>

theorem no_parent_export:
  assumes op: "cmds_file_open M inp h0 = (Inr (), h1)"
    and ls: "cmds_ls_mesh M h1 = Inr (Some ms)" and ne: "ms \<noteq> []"
    and np: "\<forall>m\<in>set ms. \<exists>p. cmds_listRelatives M m h1 = Inr p \<and> \<not> truthy p"
  shows "take (length ms + 3) (trace (snd (run_process (export_to_obj M inp outp) h0))) =
           [Returned (FileOpen inp), Returned LsMesh] @
           map (\<lambda>m. Returned (ListRelatives m)) ms @
           [export_event outp (fst (cmds_file_export M outp h1))] \<and>
         (\<forall>ev\<in>set (trace (snd (run_process (export_to_obj M inp outp) h0))).
            \<forall>ts. call_of ev \<noteq> Select ts)"
proof -
  let ?w0 = "\<lparr>hstate = h0, trace = [], stdout = []\<rparr> :: ('a, maya_call) world"
  obtain r w' where run: "export_to_obj M inp outp ?w0 = (r, w')"
    by (cases "export_to_obj M inp outp ?w0")
  from export_to_obj_result[OF run] obtain rb wb u where
    body: "obj_try_body M inp outp ?w0 = (rb, wb)" and
    tr: "trace w' = trace wb @ [u]" and u: "call_of u = Uninitialize"
    by blast
  from op have op': "cmds_file_open M inp (hstate ?w0) = (Inr (), h1)" by simp
  from obj_try_body_no_parent[OF op' ls ne np, of outp] body obtain rest where
    t: "trace wb = [Returned (FileOpen inp), Returned LsMesh] @
           map (\<lambda>m. Returned (ListRelatives m)) ms @
           [export_event outp (fst (cmds_file_export M outp h1))] @ rest" and
    rest: "\<forall>ev\<in>set rest. call_of ev = PathGetsize outp"
    by auto
  have ex: "\<And>ts. call_of (export_event outp (fst (cmds_file_export M outp h1))) \<noteq> Select ts"
    by (cases "fst (cmds_file_export M outp h1)") simp_all
  have s: "trace (snd (run_process (export_to_obj M inp outp) h0)) = trace wb @ [u]"
    using run tr by (simp add: run_process_export_to_obj)
  have "take (length ms + 3) (trace wb @ [u]) =
           [Returned (FileOpen inp), Returned LsMesh] @
           map (\<lambda>m. Returned (ListRelatives m)) ms @
           [export_event outp (fst (cmds_file_export M outp h1))]"
    unfolding t by (simp add: numeral_3_eq_3)
  moreover have "\<forall>ev\<in>set (trace wb @ [u]). \<forall>ts. call_of ev \<noteq> Select ts"
    unfolding t using rest u ex by auto
  ultimately show ?thesis unfolding s by blast
qed

theorem no_parent_export_witness:
  "cmds_file_open (demo_maya\<lparr>cmds_listRelatives := \<lambda>m h. Inr None\<rparr>) ''in.mb'' False =
     (Inr (), False) \<and>
   cmds_ls_mesh (demo_maya\<lparr>cmds_listRelatives := \<lambda>m h. Inr None\<rparr>) False =
     Inr (Some [''cubeShape'', ''ballShape'']) \<and>
   trace (snd (run_process
      (export_to_obj (demo_maya\<lparr>cmds_listRelatives := \<lambda>m h. Inr None\<rparr>) ''in.mb'' ''out.obj'')
      False)) =
     [Returned (FileOpen ''in.mb''), Returned LsMesh,
      Returned (ListRelatives ''cubeShape''), Returned (ListRelatives ''ballShape''),
      Returned (FileExport ''out.obj''), Returned (PathGetsize ''out.obj''),
      Returned Uninitialize] \<and>
   take (length [''cubeShape'', ''ballShape''] + 3) (trace (snd (run_process
      (export_to_obj (demo_maya\<lparr>cmds_listRelatives := \<lambda>m h. Inr None\<rparr>) ''in.mb'' ''out.obj'')
      False))) =
     [Returned (FileOpen ''in.mb''), Returned LsMesh,
      Returned (ListRelatives ''cubeShape''), Returned (ListRelatives ''ballShape''),
      Returned (FileExport ''out.obj'')]"
proof -
  let ?M = "demo_maya\<lparr>cmds_listRelatives := \<lambda>m h. Inr None\<rparr>"
  have a: "cmds_file_open ?M ''in.mb'' False = (Inr (), False)"
    by (simp add: demo_maya_def)
  have b: "cmds_ls_mesh ?M False = Inr (Some [''cubeShape'', ''ballShape''])"
    by (simp add: demo_maya_def)
  have c: "[''cubeShape'', ''ballShape''] \<noteq> []" by simp
  have d: "\<forall>m\<in>set [''cubeShape'', ''ballShape''].
             \<exists>p. cmds_listRelatives ?M m False = Inr p \<and> \<not> truthy p"
    by simp
  have e: "fst (cmds_file_export ?M ''out.obj'' False) = Inr ()"
    by (simp add: demo_maya_def)
  have t: "trace (snd (run_process (export_to_obj ?M ''in.mb'' ''out.obj'') False)) =
     [Returned (FileOpen ''in.mb''), Returned LsMesh,
      Returned (ListRelatives ''cubeShape''), Returned (ListRelatives ''ballShape''),
      Returned (FileExport ''out.obj''), Returned (PathGetsize ''out.obj''),
      Returned Uninitialize]"
    by (simp add: demo_maya_eval)
  have ev: "export_event ''out.obj'' (fst (cmds_file_export ?M ''out.obj'' False)) =
              Returned (FileExport ''out.obj'')"
    unfolding e by simp
  from no_parent_export[OF a b c d, of "''out.obj''"]
  have k: "take (length [''cubeShape'', ''ballShape''] + 3)
            (trace (snd (run_process (export_to_obj ?M ''in.mb'' ''out.obj'') False))) =
     [Returned (FileOpen ''in.mb''), Returned LsMesh,
      Returned (ListRelatives ''cubeShape''), Returned (ListRelatives ''ballShape''),
      Returned (FileExport ''out.obj'')]"
    unfolding ev by simp
  from a b t k show ?thesis by (intro conjI)
qed

end
